theory Spec2Isabelle
  imports
    Main
    "HOL-Library.Char_ord"
    "HOL-Library.List_Lexorder"
    "HOL-Library.Product_Lexorder"
begin

section \<open>The store\<close>

text \<open>
  The four tables the two components read and write through the Supabase client:
  \<open>available_dates\<close>, \<open>available_times\<close> (the general tier), \<open>service_availability\<close> (the
  service-specific tier) and \<open>appointments\<close>. The tables share column names, so each
  column carries the initials of its table. Row ids are generated by the database (uuid
  strings there); the model draws them from \<open>nat\<close>. Dates (\<open>YYYY-MM-DD\<close>) and times are
  strings, compared as JavaScript compares strings: lexicographically, character by
  character.
\<close>

record available_date =
  ad_id :: nat
  ad_date :: string

record available_time =
  at_id :: nat
  at_date_id :: nat
  at_time :: string
  at_is_available :: bool

record service_slot =
  sa_id :: nat
  sa_service_id :: string
  sa_date_id :: nat
  sa_time :: string
  sa_is_available :: bool

record appointment =
  ap_client_name :: string
  ap_service_id :: string
  ap_date :: string
  ap_time :: string
  ap_status :: string

record store =
  available_dates :: "available_date list"
  available_times :: "available_time list"
  service_availability :: "service_slot list"
  appointments :: "appointment list"

text \<open>
  Every \<open>await supabase...\<close> either resolves with \<open>{ data, error }\<close> or throws. A store
  call that \<open>Answers\<close> resolves with the data; one that \<open>Rejects\<close> resolves with
  \<open>data: null\<close> and an error object; one that \<open>Throws\<close> raises an exception, which
  the enclosing \<open>try\<close> catches. A schedule gives the behaviour of each call of one
  function, numbered from 0 in source order.
\<close>

datatype fault = Answers | Rejects | Throws

type_synonym faults = "nat \<Rightarrow> fault"

definition no_faults :: faults where
  "no_faults = (\<lambda>k. Answers)"

datatype 'a response = Resolved "'a option" | Thrown

definition select_rows :: "fault \<Rightarrow> 'a list \<Rightarrow> 'a list response" where
  "select_rows f rows =
     (case f of
        Answers \<Rightarrow> Resolved (Some rows)
      | Rejects \<Rightarrow> Resolved None
      | Throws \<Rightarrow> Thrown)"

text \<open>
  \<open>.maybeSingle()\<close>: the row when exactly one matches, \<open>null\<close> when none does, and an
  error (again \<open>data: null\<close>) when several do.
\<close>

definition single :: "'a list \<Rightarrow> 'a option" where
  "single rows = (case rows of [r] \<Rightarrow> Some r | _ \<Rightarrow> None)"

definition maybeSingle :: "fault \<Rightarrow> 'a list \<Rightarrow> 'a response" where
  "maybeSingle f rows =
     (case f of
        Answers \<Rightarrow> Resolved (single rows)
      | Rejects \<Rightarrow> Resolved None
      | Throws \<Rightarrow> Thrown)"

text \<open>
  \<open>new Date()\<close> is an instant. \<open>toISOString().split('T')[0]\<close> is its calendar date in
  UTC, which is what the code calls \<open>today\<close>; the calendar date of the same instant in
  the caller's own time zone can be the day before or the day after.
\<close>

record clock =
  iso_date :: string
  local_date :: string

section \<open>AppointmentForm: the date catalog\<close>

text \<open>
  \<open>select date_id, available_dates!inner(date)\<close>: each service row joined with the date
  row its \<open>date_id\<close> refers to; a row with no date row is dropped by the inner join.
\<close>

definition joined_dates :: "store \<Rightarrow> service_slot \<Rightarrow> string list" where
  "joined_dates st r = map ad_date (filter (\<lambda>d. ad_id d = sa_date_id r) (available_dates st))"

definition fetchAvailableDatesForService :: "faults \<Rightarrow> clock \<Rightarrow> store \<Rightarrow> string \<Rightarrow> string list" where
  "fetchAvailableDatesForService \<phi> ck st serviceId =
     (case select_rows (\<phi> 0)
             (concat (map (joined_dates st)
                (filter (\<lambda>r. sa_service_id r = serviceId \<and> sa_is_available r)
                   (service_availability st)))) of
        Thrown \<Rightarrow> []
      | Resolved serviceAvailabilityData \<Rightarrow>
          (let serviceDates = (case serviceAvailabilityData of None \<Rightarrow> [] | Some items \<Rightarrow> items);
               today = iso_date ck;
               futureDates = filter (\<lambda>date. today \<le> date) serviceDates
           in sort futureDates))"

definition fetchGeneralAvailableDates :: "faults \<Rightarrow> clock \<Rightarrow> store \<Rightarrow> string list" where
  "fetchGeneralAvailableDates \<phi> ck st =
     (case select_rows (\<phi> 0) (sort (map ad_date (available_dates st))) of
        Thrown \<Rightarrow> []
      | Resolved generalDatesData \<Rightarrow>
          (let generalDates = (case generalDatesData of None \<Rightarrow> [] | Some items \<Rightarrow> items);
               today = iso_date ck;
               futureDates = filter (\<lambda>date. today \<le> date) generalDates
           in sort futureDates))"

section \<open>AppointmentForm: the suggestion\<close>

text \<open>
  Modelled from the spec: the \<open>Service\<close> type of \<open>../types\<close> is not among the sources.
  The spec gives a service an identifier, a display name, a price and a duration; the
  code reads the first two only.
\<close>

record service =
  svc_id :: string
  svc_name :: string

text \<open>
  The text shown in the suggestion box: empty, the earliest slot of the service (the
  message carries the service's name, the slot's date and its time), or the hint that
  the service is selected and a date is to be picked.
\<close>

datatype suggestion =
    NoSuggestion
  | AvailableOn string string string
  | PickADate string

definition default_service_name :: string where
  "default_service_name = ''Servi'' @ [CHR 0xC3, CHR 0xA7] @ ''o''"

definition service_name_of :: "service list \<Rightarrow> string \<Rightarrow> string" where
  "service_name_of services serviceId =
     (case find (\<lambda>s. svc_id s = serviceId) services of
        None \<Rightarrow> default_service_name
      | Some s \<Rightarrow> (if svc_name s = [] then default_service_name else svc_name s))"

text \<open>
  \<open>select time, available_dates!inner(date)\<close> with the filters on the service, the flag
  and the joined date, cut by \<open>.limit(100)\<close>. The query has no \<open>order\<close>: the rows come in
  table order. An item is the pair (date, time).
\<close>

definition suggestion_rows :: "store \<Rightarrow> string \<Rightarrow> string \<Rightarrow> (string \<times> string) list" where
  "suggestion_rows st serviceId today =
     take 100
       (filter (\<lambda>item. today \<le> fst item)
          (concat (map (\<lambda>r. map (\<lambda>d. (d, sa_time r)) (joined_dates st r))
             (filter (\<lambda>r. sa_service_id r = serviceId \<and> sa_is_available r)
                (service_availability st)))))"

text \<open>
  \<open>a.localeCompare(b)\<close> compares two strings by the collation of the runtime's locale,
  not by character codes. A collation orders strings by their collation keys; the
  runtime is not part of the sources, so the key is the parameter \<open>collate\<close>: the call
  is negative, zero or positive as the key of \<open>a\<close> is below, equal to or above the key
  of \<open>b\<close>. The comparator of the code returns the comparison of the dates unless it is
  zero, and then that of the times: it orders the items by the pair of the two keys.
  JavaScript's sort is stable.
\<close>

definition code_units :: "string \<Rightarrow> string" where
  "code_units s = s"


text \<open>
  \<open>hasServiceConfiguration\<close> is the component state the closure reads; \<open>current\<close> is the
  suggestion shown before the call, kept when the function returns early.
\<close>

definition generateServiceSuggestion ::
  "(string \<Rightarrow> 'k::linorder) \<Rightarrow> faults \<Rightarrow> clock \<Rightarrow> service list \<Rightarrow> bool \<Rightarrow> suggestion \<Rightarrow>
     store \<Rightarrow> string \<Rightarrow> suggestion" where
  "generateServiceSuggestion collate \<phi> ck services hasServiceConfiguration current st serviceId =
     (let serviceName = service_name_of services serviceId in
      if \<not> hasServiceConfiguration then current
      else
        (case select_rows (\<phi> 0) (suggestion_rows st serviceId (iso_date ck)) of
           Thrown \<Rightarrow> NoSuggestion
         | Resolved serviceAvailabilityData \<Rightarrow>
             (case serviceAvailabilityData of
                None \<Rightarrow> PickADate serviceName
              | Some items \<Rightarrow>
                  (case sort_key (\<lambda>item. (collate (fst item), collate (snd item))) items of
                     [] \<Rightarrow> PickADate serviceName
                   | earliestSlot # _ \<Rightarrow>
                       AvailableOn serviceName (fst earliestSlot) (snd earliestSlot)))))"

section \<open>AppointmentForm: the configuration check\<close>

record form_state =
  hasServiceConfiguration :: bool
  availableDates :: "string list"
  serviceSuggestion :: suggestion

text \<open>
  The functions it awaits have a \<open>try\<close> of their own and never throw; each takes the
  part of the schedule after the calls already made. \<open>generateServiceSuggestion\<close> reads
  \<open>hasServiceConfiguration\<close> from the closure, that is the state before this call.
\<close>

definition checkServiceConfiguration ::
  "(string \<Rightarrow> 'k::linorder) \<Rightarrow> faults \<Rightarrow> clock \<Rightarrow> service list \<Rightarrow> form_state \<Rightarrow> store \<Rightarrow>
     string \<Rightarrow> form_state" where
  "checkServiceConfiguration collate \<phi> ck services fs st serviceId =
     (case select_rows (\<phi> 0)
             (take 1 (filter (\<lambda>r. sa_service_id r = serviceId) (service_availability st))) of
        Thrown \<Rightarrow>
          \<lparr>hasServiceConfiguration = False, availableDates = [], serviceSuggestion = NoSuggestion\<rparr>
      | Resolved serviceConfig \<Rightarrow>
          (let hasConfig = (case serviceConfig of None \<Rightarrow> False | Some rows \<Rightarrow> 0 < length rows) in
           if hasConfig then
             \<lparr>hasServiceConfiguration = True,
              availableDates = fetchAvailableDatesForService (\<lambda>k. \<phi> (k + 1)) ck st serviceId,
              serviceSuggestion =
                generateServiceSuggestion collate (\<lambda>k. \<phi> (k + 2)) ck services
                  (hasServiceConfiguration fs) (serviceSuggestion fs) st serviceId\<rparr>
           else
             \<lparr>hasServiceConfiguration = False,
              availableDates = fetchGeneralAvailableDates (\<lambda>k. \<phi> (k + 1)) ck st,
              serviceSuggestion = NoSuggestion\<rparr>))"

section \<open>AppointmentForm: the times of a date\<close>

text \<open>What \<open>select('time, is_available')\<close> returns of a row.\<close>

record time_slot =
  ts_time :: string
  ts_is_available :: bool

definition service_times :: "store \<Rightarrow> string \<Rightarrow> nat \<Rightarrow> time_slot list" where
  "service_times st serviceId dateId =
     map (\<lambda>r. \<lparr>ts_time = sa_time r, ts_is_available = sa_is_available r\<rparr>)
       (sort_key sa_time
          (filter (\<lambda>r. sa_service_id r = serviceId \<and> sa_date_id r = dateId \<and> sa_is_available r)
             (service_availability st)))"

definition general_times :: "store \<Rightarrow> nat \<Rightarrow> time_slot list" where
  "general_times st dateId =
     map (\<lambda>g. \<lparr>ts_time = at_time g, ts_is_available = at_is_available g\<rparr>)
       (sort_key at_time
          (filter (\<lambda>g. at_date_id g = dateId \<and> at_is_available g) (available_times st)))"

definition all_service_times :: "store \<Rightarrow> nat \<Rightarrow> string list" where
  "all_service_times st dateId =
     map sa_time (filter (\<lambda>r. sa_date_id r = dateId) (service_availability st))"

text \<open>
  The value the function passes to \<open>setAvailableTimes\<close>. Calls: 0 the date row, 1 the
  configuration probe, 2 the service's times, 3 the general times, 4 the times of
  every service on the date.
\<close>

definition fetchServiceSpecificTimes :: "faults \<Rightarrow> store \<Rightarrow> string \<Rightarrow> string \<Rightarrow> time_slot list" where
  "fetchServiceSpecificTimes \<phi> st date serviceId =
     (case maybeSingle (\<phi> 0) (filter (\<lambda>d. ad_date d = date) (available_dates st)) of
        Thrown \<Rightarrow> []
      | Resolved None \<Rightarrow> []
      | Resolved (Some dateData) \<Rightarrow>
          (case select_rows (\<phi> 1)
                  (take 1 (filter (\<lambda>r. sa_service_id r = serviceId) (service_availability st))) of
             Thrown \<Rightarrow> []
           | Resolved serviceConfig \<Rightarrow>
               if (case serviceConfig of None \<Rightarrow> False | Some rows \<Rightarrow> 0 < length rows) then
                 (case select_rows (\<phi> 2) (service_times st serviceId (ad_id dateData)) of
                    Thrown \<Rightarrow> []
                  | Resolved None \<Rightarrow> []
                  | Resolved (Some serviceTimesData) \<Rightarrow> serviceTimesData)
               else
                 (case select_rows (\<phi> 3) (general_times st (ad_id dateData)) of
                    Thrown \<Rightarrow> []
                  | Resolved None \<Rightarrow> []
                  | Resolved (Some generalTimesData) \<Rightarrow>
                      (case select_rows (\<phi> 4) (all_service_times st (ad_id dateData)) of
                         Thrown \<Rightarrow> []
                       | Resolved allServiceTimes \<Rightarrow>
                           (let serviceSpecificTimes =
                                  set (case allServiceTimes of None \<Rightarrow> [] | Some ts \<Rightarrow> ts)
                            in filter (\<lambda>t. ts_time t \<notin> serviceSpecificTimes)
                                 generalTimesData)))))"

section \<open>AppointmentForm: booking\<close>

text \<open>
  What the user and the console see of a submission: the two \<open>alert\<close> calls and the
  four \<open>console.error\<close> calls of \<open>handleSubmit\<close>, in the order they happen.
\<close>

datatype signal =
    AlertRequiredFields
  | AlertSubmissionFailed
  | LogCreateAppointment
  | LogUpdateServiceAvailability
  | LogUpdateTimeAvailability
  | LogSubmission

text \<open>\<open>submitted\<close>: the \<open>onSubmit\<close> callback was called, the booking is reported as made.\<close>

record submission =
  sub_store :: store
  submitted :: bool
  signals :: "signal list"

definition submission_failed :: "store \<Rightarrow> signal list \<Rightarrow> submission" where
  "submission_failed st logged =
     \<lparr>sub_store = st, submitted = False,
      signals = logged @ [LogSubmission, AlertSubmissionFailed]\<rparr>"

definition mark_service_unavailable :: "nat \<Rightarrow> store \<Rightarrow> store" where
  "mark_service_unavailable rowId st =
     st\<lparr>service_availability :=
          map (\<lambda>r. if sa_id r = rowId then r\<lparr>sa_is_available := False\<rparr> else r)
            (service_availability st)\<rparr>"

definition mark_general_unavailable :: "nat \<Rightarrow> string \<Rightarrow> store \<Rightarrow> store" where
  "mark_general_unavailable dateId time st =
     st\<lparr>available_times :=
          map (\<lambda>g. if at_date_id g = dateId \<and> at_time g = time
                    then g\<lparr>at_is_available := False\<rparr> else g)
            (available_times st)\<rparr>"

text \<open>
  Calls: 0 the insert of the appointment, 1 the date row, 2 the service-specific row,
  3 the update of that row, 4 the update of the general rows. A rejected or thrown
  write leaves the table as it was; nothing undoes the insert once it is made.
\<close>

definition handleSubmit ::
  "faults \<Rightarrow> store \<Rightarrow> string \<Rightarrow> string \<Rightarrow> string \<Rightarrow> string \<Rightarrow> submission" where
  "handleSubmit \<phi> st name service date time =
     (if name = [] \<or> service = [] \<or> date = [] \<or> time = [] then
        \<lparr>sub_store = st, submitted = False, signals = [AlertRequiredFields]\<rparr>
      else
        (case \<phi> 0 of
           Throws \<Rightarrow> submission_failed st []
         | Rejects \<Rightarrow> submission_failed st [LogCreateAppointment]
         | Answers \<Rightarrow>
             (let st1 = st\<lparr>appointments := appointments st @
                          [\<lparr>ap_client_name = name, ap_service_id = service, ap_date = date,
                            ap_time = time, ap_status = ''pending''\<rparr>]\<rparr>
              in
              case maybeSingle (\<phi> 1) (filter (\<lambda>d. ad_date d = date) (available_dates st1)) of
                Thrown \<Rightarrow> submission_failed st1 []
              | Resolved None \<Rightarrow> \<lparr>sub_store = st1, submitted = True, signals = []\<rparr>
              | Resolved (Some dateData) \<Rightarrow>
                  (case maybeSingle (\<phi> 2)
                          (filter (\<lambda>r. sa_service_id r = service \<and> sa_date_id r = ad_id dateData
                                      \<and> sa_time r = time)
                             (service_availability st1)) of
                     Thrown \<Rightarrow> submission_failed st1 []
                   | Resolved (Some serviceAvailability) \<Rightarrow>
                       (case \<phi> 3 of
                          Throws \<Rightarrow> submission_failed st1 []
                        | Rejects \<Rightarrow>
                            \<lparr>sub_store = st1, submitted = True,
                             signals = [LogUpdateServiceAvailability]\<rparr>
                        | Answers \<Rightarrow>
                            \<lparr>sub_store = mark_service_unavailable (sa_id serviceAvailability) st1,
                             submitted = True, signals = []\<rparr>)
                   | Resolved None \<Rightarrow>
                       (case \<phi> 4 of
                          Throws \<Rightarrow> submission_failed st1 []
                        | Rejects \<Rightarrow>
                            \<lparr>sub_store = st1, submitted = True,
                             signals = [LogUpdateTimeAvailability]\<rparr>
                        | Answers \<Rightarrow>
                            \<lparr>sub_store = mark_general_unavailable (ad_id dateData) time st1,
                             submitted = True, signals = []\<rparr>)))))"

section \<open>ServiceAvailabilityManager\<close>

text \<open>The id the database gives a new row: one not in the table yet.\<close>

definition new_id :: "nat list \<Rightarrow> nat" where
  "new_id ids = Suc (fold max ids 0)"

text \<open>What the panel shows after an action: its error or its success message.\<close>

datatype notice =
    NoNotice
  | ErrorMissingSelection
  | ErrorDuplicateTime
  | ErrorStore
  | SuccessAdded
  | SuccessRemoved

text \<open>Calls: 0 the general row of the time, 1 its deletion. Errors are logged only.\<close>

definition removeFromGeneralAvailability :: "faults \<Rightarrow> store \<Rightarrow> nat \<Rightarrow> string \<Rightarrow> store" where
  "removeFromGeneralAvailability \<phi> st dateId timeToRemove =
     (case maybeSingle (\<phi> 0)
             (filter (\<lambda>g. at_date_id g = dateId \<and> at_time g = timeToRemove) (available_times st)) of
        Thrown \<Rightarrow> st
      | Resolved None \<Rightarrow> st
      | Resolved (Some generalTime) \<Rightarrow>
          (case \<phi> 1 of
             Answers \<Rightarrow>
               st\<lparr>available_times :=
                    filter (\<lambda>g. at_id g \<noteq> at_id generalTime) (available_times st)\<rparr>
           | Rejects \<Rightarrow> st
           | Throws \<Rightarrow> st))"

text \<open>
  Calls: 0 the date row, 1 the insert of a new date row, 2 the row of this service,
  date and time, 3 the insert of the service row, 4 and 5 the calls of
  \<open>removeFromGeneralAvailability\<close>. The refresh of the displayed list that follows
  reads only.
\<close>

definition handleAddTime :: "faults \<Rightarrow> store \<Rightarrow> string \<Rightarrow> string \<Rightarrow> string \<Rightarrow> store \<times> notice" where
  "handleAddTime \<phi> st selectedService selectedDate time =
     (if selectedService = [] \<or> selectedDate = [] \<or> time = [] then (st, ErrorMissingSelection)
      else
        (case maybeSingle (\<phi> 0) (filter (\<lambda>d. ad_date d = selectedDate) (available_dates st)) of
           Thrown \<Rightarrow> (st, ErrorStore)
         | Resolved existingDate \<Rightarrow>
             (case (case existingDate of
                      Some d \<Rightarrow> Some (st, ad_id d)
                    | None \<Rightarrow>
                        (case \<phi> 1 of
                           Answers \<Rightarrow>
                             (let newDate = \<lparr>ad_id = new_id (map ad_id (available_dates st)),
                                             ad_date = selectedDate\<rparr>
                              in Some (st\<lparr>available_dates := available_dates st @ [newDate]\<rparr>,
                                       ad_id newDate))
                         | Rejects \<Rightarrow> None
                         | Throws \<Rightarrow> None)) of
                None \<Rightarrow> (st, ErrorStore)
              | Some (st1, dateId) \<Rightarrow>
                  (case maybeSingle (\<phi> 2)
                          (filter (\<lambda>r. sa_service_id r = selectedService \<and> sa_date_id r = dateId
                                      \<and> sa_time r = time)
                             (service_availability st1)) of
                     Thrown \<Rightarrow> (st1, ErrorStore)
                   | Resolved (Some existingTime) \<Rightarrow> (st1, ErrorDuplicateTime)
                   | Resolved None \<Rightarrow>
                       (case \<phi> 3 of
                          Throws \<Rightarrow> (st1, ErrorStore)
                        | Rejects \<Rightarrow> (st1, ErrorStore)
                        | Answers \<Rightarrow>
                            (let st2 = st1\<lparr>service_availability := service_availability st1 @
                                         [\<lparr>sa_id = new_id (map sa_id (service_availability st1)),
                                           sa_service_id = selectedService, sa_date_id = dateId,
                                           sa_time = time, sa_is_available = True\<rparr>]\<rparr>
                             in (removeFromGeneralAvailability (\<lambda>k. \<phi> (k + 4)) st2 dateId time,
                                 SuccessAdded)))))))"

text \<open>
  \<open>confirmed\<close> is the operator's answer to the \<open>confirm\<close> dialog. Calls: 0 the deletion
  of the service row (its result is not read), 1 the date row, 2 the general row of the
  time, 3 the insert of a general row (its result is not read). What was written before
  an exception stays written.
\<close>

definition handleRemoveTime ::
  "faults \<Rightarrow> bool \<Rightarrow> store \<Rightarrow> string \<Rightarrow> nat \<Rightarrow> string \<Rightarrow> store \<times> notice" where
  "handleRemoveTime \<phi> confirmed st selectedDate timeId timeValue =
     (if \<not> confirmed then (st, NoNotice)
      else
        (case \<phi> 0 of
           Throws \<Rightarrow> (st, ErrorStore)
         | f0 \<Rightarrow>
             (let st1 = (if f0 = Answers
                         then st\<lparr>service_availability :=
                                   filter (\<lambda>r. sa_id r \<noteq> timeId) (service_availability st)\<rparr>
                         else st)
              in
              case maybeSingle (\<phi> 1) (filter (\<lambda>d. ad_date d = selectedDate) (available_dates st1)) of
                Thrown \<Rightarrow> (st1, ErrorStore)
              | Resolved None \<Rightarrow> (st1, SuccessRemoved)
              | Resolved (Some dateData) \<Rightarrow>
                  (case maybeSingle (\<phi> 2)
                          (filter (\<lambda>g. at_date_id g = ad_id dateData \<and> at_time g = timeValue)
                             (available_times st1)) of
                     Thrown \<Rightarrow> (st1, ErrorStore)
                   | Resolved (Some existingGeneral) \<Rightarrow> (st1, SuccessRemoved)
                   | Resolved None \<Rightarrow>
                       (case \<phi> 3 of
                          Throws \<Rightarrow> (st1, ErrorStore)
                        | Rejects \<Rightarrow> (st1, SuccessRemoved)
                        | Answers \<Rightarrow>
                            (st1\<lparr>available_times := available_times st1 @
                                   [\<lparr>at_id = new_id (map at_id (available_times st1)),
                                     at_date_id = ad_id dateData, at_time = timeValue,
                                     at_is_available = True\<rparr>]\<rparr>,
                             SuccessRemoved))))))"

section \<open>Reference definitions and an example store\<close>

text \<open>
  The general tier of a date in the spec's words: the general rows of the date that are
  flagged available and whose time is the time of no service-specific row of the date,
  whichever service owns that row and whatever its flag, by ascending time.
\<close>

definition general_tier :: "store \<Rightarrow> nat \<Rightarrow> time_slot list" where
  "general_tier st dateId =
     map (\<lambda>g. \<lparr>ts_time = at_time g, ts_is_available = at_is_available g\<rparr>)
       (sort_key at_time
          (filter (\<lambda>g. at_date_id g = dateId \<and> at_is_available g
                      \<and> at_time g \<notin> set (map sa_time
                            (filter (\<lambda>r. sa_date_id r = dateId) (service_availability st))))
             (available_times st)))"

text \<open>
  One bookable day with three general times, of which 11:00 is taken, and one service
  with a time of its own at 09:00.
\<close>

definition salon :: store where
  "salon =
     \<lparr>available_dates = [\<lparr>ad_id = 1, ad_date = ''2024-05-01''\<rparr>],
      available_times =
        [\<lparr>at_id = 1, at_date_id = 1, at_time = ''10:00'', at_is_available = True\<rparr>,
         \<lparr>at_id = 2, at_date_id = 1, at_time = ''09:00'', at_is_available = True\<rparr>,
         \<lparr>at_id = 3, at_date_id = 1, at_time = ''11:00'', at_is_available = False\<rparr>],
      service_availability =
        [\<lparr>sa_id = 1, sa_service_id = ''cut'', sa_date_id = 1, sa_time = ''09:00'',
          sa_is_available = True\<rparr>],
      appointments = []\<rparr>"

text \<open>
  An instant at which the caller's date is already the second of May while the UTC date
  is still the first: one o'clock at night three hours east of Greenwich.
\<close>

definition east_of_utc :: clock where
  "east_of_utc = \<lparr>iso_date = ''2024-05-01'', local_date = ''2024-05-02''\<rparr>"

text \<open>
  A store where one service has times of its own on three days, in no particular order:
  one day is past, one time is taken, and one time belongs to another service.
\<close>

definition studio :: store where
  "studio =
     \<lparr>available_dates =
        [\<lparr>ad_id = 1, ad_date = ''2024-05-02''\<rparr>,
         \<lparr>ad_id = 2, ad_date = ''2024-05-01''\<rparr>,
         \<lparr>ad_id = 3, ad_date = ''2024-04-30''\<rparr>],
      available_times = [],
      service_availability =
        [\<lparr>sa_id = 1, sa_service_id = ''cut'', sa_date_id = 1, sa_time = ''09:00'',
          sa_is_available = True\<rparr>,
         \<lparr>sa_id = 2, sa_service_id = ''cut'', sa_date_id = 2, sa_time = ''14:00'',
          sa_is_available = True\<rparr>,
         \<lparr>sa_id = 3, sa_service_id = ''cut'', sa_date_id = 2, sa_time = ''10:00'',
          sa_is_available = True\<rparr>,
         \<lparr>sa_id = 4, sa_service_id = ''cut'', sa_date_id = 2, sa_time = ''08:00'',
          sa_is_available = False\<rparr>,
         \<lparr>sa_id = 5, sa_service_id = ''cut'', sa_date_id = 3, sa_time = ''08:00'',
          sa_is_available = True\<rparr>,
         \<lparr>sa_id = 6, sa_service_id = ''color'', sa_date_id = 2, sa_time = ''07:00'',
          sa_is_available = True\<rparr>],
      appointments = []\<rparr>"

definition first_of_may :: clock where
  "first_of_may = \<lparr>iso_date = ''2024-05-01'', local_date = ''2024-05-01''\<rparr>"

definition catalog :: "service list" where
  "catalog = [\<lparr>svc_id = ''cut'', svc_name = ''Corte''\<rparr>]"

text \<open>The schedule in which call \<open>n\<close> is rejected and every other call answers.\<close>

definition rejects_at :: "nat \<Rightarrow> faults" where
  "rejects_at n = (\<lambda>k. if k = n then Rejects else Answers)"

text \<open>
  The rows of a table that went from available to unavailable between two states of it,
  compared row by row. The updates of the code keep every row in its place.
\<close>

definition flipped :: "('a \<Rightarrow> bool) \<Rightarrow> 'a list \<Rightarrow> 'a list \<Rightarrow> 'a list" where
  "flipped avail before after =
     map fst (filter (\<lambda>(old, new). avail old \<and> \<not> avail new) (zip before after))"

text \<open>The appointment row that \<open>handleSubmit\<close> inserts.\<close>

definition pending :: "string \<Rightarrow> string \<Rightarrow> string \<Rightarrow> string \<Rightarrow> appointment" where
  "pending name service date time =
     \<lparr>ap_client_name = name, ap_service_id = service, ap_date = date, ap_time = time,
      ap_status = ''pending''\<rparr>"

text \<open>The general row that \<open>handleRemoveTime\<close> inserts for a date row and a time.\<close>

definition general_row :: "store \<Rightarrow> nat \<Rightarrow> string \<Rightarrow> available_time" where
  "general_row st dateId time =
     \<lparr>at_id = new_id (map at_id (available_times st)), at_date_id = dateId, at_time = time,
      at_is_available = True\<rparr>"

text \<open>
  A bookable day with no time at all, and the same day once the operator has given one
  service a time of its own at 09:00.
\<close>

definition empty_day :: store where
  "empty_day =
     \<lparr>available_dates = [\<lparr>ad_id = 1, ad_date = ''2024-05-01''\<rparr>],
      available_times = [], service_availability = [], appointments = []\<rparr>"

definition cut_only_day :: store where
  "cut_only_day =
     \<lparr>available_dates = [\<lparr>ad_id = 1, ad_date = ''2024-05-01''\<rparr>],
      available_times = [],
      service_availability =
        [\<lparr>sa_id = 1, sa_service_id = ''cut'', sa_date_id = 1, sa_time = ''09:00'',
          sa_is_available = True\<rparr>],
      appointments = []\<rparr>"

text \<open>The form before any service has been chosen.\<close>

definition fresh_form :: form_state where
  "fresh_form =
     \<lparr>hasServiceConfiguration = False, availableDates = [], serviceSuggestion = NoSuggestion\<rparr>"


text \<open>
  The two slot tables after a booking in the spec's words: where the date has a date
  row, the service-specific row of the service, date and time is flagged unavailable if
  there is exactly one, and otherwise the general rows of the date and time are.
\<close>

definition slots_after_booking ::
  "store \<Rightarrow> string \<Rightarrow> string \<Rightarrow> string \<Rightarrow> service_slot list \<times> available_time list" where
  "slots_after_booking st service date time =
     (case single (filter (\<lambda>d. ad_date d = date) (available_dates st)) of
        None \<Rightarrow> (service_availability st, available_times st)
      | Some dateRecord \<Rightarrow>
          (case single (filter (\<lambda>s. sa_service_id s = service
                                 \<and> sa_date_id s = ad_id dateRecord \<and> sa_time s = time)
                         (service_availability st)) of
             Some serviceSlot \<Rightarrow>
               (map (\<lambda>r. if sa_id r = sa_id serviceSlot
                         then r\<lparr>sa_is_available := False\<rparr> else r)
                  (service_availability st),
                available_times st)
           | None \<Rightarrow>
               (service_availability st,
                map (\<lambda>g. if at_date_id g = ad_id dateRecord \<and> at_time g = time
                         then g\<lparr>at_is_available := False\<rparr> else g)
                  (available_times st))))"

text \<open>
  A day on which two services own the same time and no general row exists, and a day
  whose only general row is already taken while a service owns the same time.
\<close>

definition shared_time_day :: store where
  "shared_time_day =
     \<lparr>available_dates = [\<lparr>ad_id = 1, ad_date = ''2024-05-01''\<rparr>],
      available_times = [],
      service_availability =
        [\<lparr>sa_id = 1, sa_service_id = ''cut'', sa_date_id = 1, sa_time = ''09:00'',
          sa_is_available = True\<rparr>,
         \<lparr>sa_id = 2, sa_service_id = ''color'', sa_date_id = 1, sa_time = ''09:00'',
          sa_is_available = True\<rparr>],
      appointments = []\<rparr>"

definition taken_day :: store where
  "taken_day =
     \<lparr>available_dates = [\<lparr>ad_id = 1, ad_date = ''2024-05-01''\<rparr>],
      available_times =
        [\<lparr>at_id = 1, at_date_id = 1, at_time = ''09:00'', at_is_available = False\<rparr>],
      service_availability =
        [\<lparr>sa_id = 1, sa_service_id = ''cut'', sa_date_id = 1, sa_time = ''09:00'',
          sa_is_available = True\<rparr>],
      appointments = []\<rparr>"


section \<open>Properties\<close>

subsection \<open>The general tier of a date\<close>

lemma filter_general_times:
  "filter (\<lambda>t. ts_time t \<notin> S) (general_times st dateId) =
     map (\<lambda>g. \<lparr>ts_time = at_time g, ts_is_available = at_is_available g\<rparr>)
       (sort_key at_time
          (filter (\<lambda>g. at_date_id g = dateId \<and> at_is_available g \<and> at_time g \<notin> S)
             (available_times st)))"
  by (simp add: general_times_def filter_map filter_sort o_def conj_commute conj_left_commute)

lemma fetch_general_branch:
  assumes "filter (\<lambda>r. sa_service_id r = serviceId) (service_availability st) = []"
  shows "fetchServiceSpecificTimes no_faults st date serviceId =
           (case single (filter (\<lambda>d. ad_date d = date) (available_dates st)) of
              None \<Rightarrow> []
            | Some dateRecord \<Rightarrow> general_tier st (ad_id dateRecord))"
  using assms
  by (simp add: fetchServiceSpecificTimes_def no_faults_def maybeSingle_def select_rows_def
      filter_general_times all_service_times_def general_tier_def split: option.splits)

lemma sorted_general_tier: "sorted (map ts_time (general_tier st dateId))"
  by (simp add: general_tier_def o_def)

lemma general_tier_excludes:
  "r \<in> set (service_availability st) \<Longrightarrow> sa_date_id r = dateId \<Longrightarrow>
     sa_time r \<notin> ts_time ` set (general_tier st dateId)"
  by (force simp: general_tier_def)

text \<open>
  C1. For a service with no service-specific row at all, and the store answering every
  call, \<open>fetchServiceSpecificTimes\<close> returns nothing when the date does not have exactly
  one date row, and otherwise exactly the general tier of the date's row: the available general rows of
  the date whose time no service-specific row of the date has, sorted by time. In
  particular no time of a service-specific row of that date, of any service and with any
  flag, is listed.
\<close>

theorem slotsFor_general_tier:
  assumes "filter (\<lambda>r. sa_service_id r = serviceId) (service_availability st) = []"
  shows "(case single (filter (\<lambda>d. ad_date d = date) (available_dates st)) of
            None \<Rightarrow> fetchServiceSpecificTimes no_faults st date serviceId = []
          | Some dateRecord \<Rightarrow>
              fetchServiceSpecificTimes no_faults st date serviceId =
                general_tier st (ad_id dateRecord)
              \<and> (\<forall>r \<in> set (service_availability st).
                    sa_date_id r = ad_id dateRecord \<longrightarrow>
                    sa_time r \<notin> ts_time ` set (fetchServiceSpecificTimes no_faults st date serviceId)))
         \<and> sorted (map ts_time (fetchServiceSpecificTimes no_faults st date serviceId))"
proof (cases "single (filter (\<lambda>d. ad_date d = date) (available_dates st))")
  case None
  with fetch_general_branch [OF assms, of date] show ?thesis by simp
next
  case (Some dateRecord)
  with fetch_general_branch [OF assms, of date]
  have eq: "fetchServiceSpecificTimes no_faults st date serviceId =
              general_tier st (ad_id dateRecord)"
    by simp
  show ?thesis
    unfolding Some eq using general_tier_excludes [of _ st "ad_id dateRecord"]
    by (simp add: sorted_general_tier)
qed

theorem slotsFor_general_tier_witness:
  "filter (\<lambda>r. sa_service_id r = ''color'') (service_availability salon) = []
   \<and> fetchServiceSpecificTimes no_faults salon ''2024-05-01'' ''color'' =
       [\<lparr>ts_time = ''10:00'', ts_is_available = True\<rparr>]"
proof -
  have h: "filter (\<lambda>r. sa_service_id r = ''color'') (service_availability salon) = []"
    by (simp add: salon_def)
  have d: "single (filter (\<lambda>d. ad_date d = ''2024-05-01'') (available_dates salon)) =
             Some \<lparr>ad_id = 1, ad_date = ''2024-05-01''\<rparr>"
    by (simp add: salon_def single_def)
  have g: "general_tier salon 1 = [\<lparr>ts_time = ''10:00'', ts_is_available = True\<rparr>]"
    by (simp add: salon_def general_tier_def)
  from slotsFor_general_tier [OF h, of "''2024-05-01''"] show ?thesis
    unfolding d using h g by simp
qed

subsection \<open>The date catalog\<close>

lemma fetch_dates_sorted_from_iso_date:
  "sorted (fetchAvailableDatesForService \<phi> ck st serviceId)
   \<and> (\<forall>d \<in> set (fetchAvailableDatesForService \<phi> ck st serviceId). iso_date ck \<le> d)
   \<and> sorted (fetchGeneralAvailableDates \<phi> ck st)
   \<and> (\<forall>d \<in> set (fetchGeneralAvailableDates \<phi> ck st). iso_date ck \<le> d)"
  by (simp add: fetchAvailableDatesForService_def fetchGeneralAvailableDates_def
      select_rows_def Let_def split: fault.splits)

text \<open>
  C6, as the claim states it, fails: the claim takes today to be the caller's local
  date, the code takes the UTC date of the instant. For a caller east of Greenwich
  shortly after midnight, both branches return the first of May although the caller's
  date is already the second.
\<close>

theorem datesFor_before_local_today:
  "fetchGeneralAvailableDates no_faults east_of_utc salon = [''2024-05-01'']
   \<and> fetchAvailableDatesForService no_faults east_of_utc salon ''cut'' = [''2024-05-01'']
   \<and> ''2024-05-01'' < local_date east_of_utc"
  by (simp add: fetchGeneralAvailableDates_def fetchAvailableDatesForService_def no_faults_def
      select_rows_def east_of_utc_def salon_def joined_dates_def)

text \<open>
  C6, amended. For every service, every state of the store and whatever the store does,
  the dates returned are in ascending order and none is before the UTC calendar date
  of the call: in the service-specific branch, in the general branch, and in the list
  \<open>checkServiceConfiguration\<close> puts in the form through either.
\<close>

theorem datesFor_ascending_from_utc_today:
  "sorted (fetchAvailableDatesForService \<phi> ck st serviceId)
   \<and> (\<forall>d \<in> set (fetchAvailableDatesForService \<phi> ck st serviceId). iso_date ck \<le> d)
   \<and> sorted (fetchGeneralAvailableDates \<phi> ck st)
   \<and> (\<forall>d \<in> set (fetchGeneralAvailableDates \<phi> ck st). iso_date ck \<le> d)
   \<and> sorted (availableDates (checkServiceConfiguration collate \<phi> ck services fs st serviceId))
   \<and> (\<forall>d \<in> set (availableDates (checkServiceConfiguration collate \<phi> ck services fs st serviceId)).
         iso_date ck \<le> d)"
proof -
  have "sorted (availableDates (checkServiceConfiguration collate \<phi> ck services fs st serviceId))
     \<and> (\<forall>d \<in> set (availableDates (checkServiceConfiguration collate \<phi> ck services fs st serviceId)).
           iso_date ck \<le> d)"
    using fetch_dates_sorted_from_iso_date [of "\<lambda>k. \<phi> (k + 1)" ck st serviceId]
    by (simp add: checkServiceConfiguration_def Let_def split: response.splits)
  with fetch_dates_sorted_from_iso_date [of \<phi> ck st serviceId] show ?thesis by simp
qed

theorem datesFor_ascending_from_utc_today_witness:
  "fetchGeneralAvailableDates no_faults first_of_may studio = [''2024-05-01'', ''2024-05-02'']
   \<and> fetchAvailableDatesForService no_faults first_of_may studio ''cut'' =
       [''2024-05-01'', ''2024-05-01'', ''2024-05-02'']
   \<and> availableDates (checkServiceConfiguration code_units no_faults first_of_may catalog
        \<lparr>hasServiceConfiguration = False, availableDates = [], serviceSuggestion = NoSuggestion\<rparr>
        studio ''cut'') = [''2024-05-01'', ''2024-05-01'', ''2024-05-02'']
   \<and> sorted [''2024-05-01'', ''2024-05-01'', ''2024-05-02'']
   \<and> iso_date first_of_may = ''2024-05-01''"
proof -
  have general: "fetchGeneralAvailableDates no_faults first_of_may studio =
      [''2024-05-01'', ''2024-05-02'']"
    and own: "fetchAvailableDatesForService no_faults first_of_may studio ''cut'' =
      [''2024-05-01'', ''2024-05-01'', ''2024-05-02'']"
    by (simp_all add: fetchGeneralAvailableDates_def fetchAvailableDatesForService_def
        no_faults_def select_rows_def first_of_may_def studio_def joined_dates_def)
  have shifted: "(\<lambda>k. no_faults (k + 1)) = no_faults"
    by (simp add: no_faults_def)
  have form: "availableDates (checkServiceConfiguration code_units no_faults first_of_may catalog
        \<lparr>hasServiceConfiguration = False, availableDates = [], serviceSuggestion = NoSuggestion\<rparr>
        studio ''cut'') = fetchAvailableDatesForService no_faults first_of_may studio ''cut''"
    unfolding checkServiceConfiguration_def shifted
    by (simp add: no_faults_def select_rows_def studio_def)
  from datesFor_ascending_from_utc_today [where \<phi> = no_faults and ck = first_of_may
      and st = studio and serviceId = "''cut''" and collate = code_units]
  have "sorted (fetchAvailableDatesForService no_faults first_of_may studio ''cut'')" by simp
  with general own form show ?thesis by (simp add: first_of_may_def)
qed

subsection \<open>The suggestion\<close>






lemma no_faults_shifted: "(\<lambda>k. no_faults (k + n)) = no_faults"
  by (simp add: no_faults_def)





subsection \<open>Store failures on the resolution path\<close>

text \<open>
  C8. The resolution functions read only \<open>data\<close> of a store response. When the store
  rejects a call, the code takes the missing data for an empty answer. For the
  configured service of the example, whose only time is 09:00, a rejected
  configuration probe makes \<open>fetchServiceSpecificTimes\<close> list the general 10:00; for a
  service without configuration, a rejected exclusion query lists 09:00, which another
  service owns; and a rejected probe gives a configured service the general catalog of
  dates. None of the three results is empty.
\<close>

theorem rejected_calls_leak_general_tier:
  "fetchServiceSpecificTimes no_faults salon ''2024-05-01'' ''cut'' =
     [\<lparr>ts_time = ''09:00'', ts_is_available = True\<rparr>]
   \<and> fetchServiceSpecificTimes (rejects_at 1) salon ''2024-05-01'' ''cut'' =
       [\<lparr>ts_time = ''10:00'', ts_is_available = True\<rparr>]
   \<and> fetchServiceSpecificTimes no_faults salon ''2024-05-01'' ''color'' =
       [\<lparr>ts_time = ''10:00'', ts_is_available = True\<rparr>]
   \<and> fetchServiceSpecificTimes (rejects_at 4) salon ''2024-05-01'' ''color'' =
       [\<lparr>ts_time = ''09:00'', ts_is_available = True\<rparr>,
        \<lparr>ts_time = ''10:00'', ts_is_available = True\<rparr>]
   \<and> availableDates
        (checkServiceConfiguration code_units no_faults first_of_may catalog fresh_form
           studio ''color'') = [''2024-05-01'']
   \<and> availableDates
        (checkServiceConfiguration code_units (rejects_at 0) first_of_may catalog fresh_form
           studio ''color'') = [''2024-05-01'', ''2024-05-02'']"
proof -
  have times: "fetchServiceSpecificTimes no_faults salon ''2024-05-01'' ''cut'' =
     [\<lparr>ts_time = ''09:00'', ts_is_available = True\<rparr>]"
    "fetchServiceSpecificTimes (rejects_at 1) salon ''2024-05-01'' ''cut'' =
       [\<lparr>ts_time = ''10:00'', ts_is_available = True\<rparr>]"
    "fetchServiceSpecificTimes no_faults salon ''2024-05-01'' ''color'' =
       [\<lparr>ts_time = ''10:00'', ts_is_available = True\<rparr>]"
    "fetchServiceSpecificTimes (rejects_at 4) salon ''2024-05-01'' ''color'' =
       [\<lparr>ts_time = ''09:00'', ts_is_available = True\<rparr>,
        \<lparr>ts_time = ''10:00'', ts_is_available = True\<rparr>]"
    by (simp_all add: fetchServiceSpecificTimes_def no_faults_def rejects_at_def select_rows_def
        maybeSingle_def single_def salon_def service_times_def general_times_def
        all_service_times_def)
  have own: "availableDates
        (checkServiceConfiguration code_units no_faults first_of_may catalog fresh_form
           studio ''color'') = [''2024-05-01'']"
    unfolding checkServiceConfiguration_def no_faults_shifted
    by (simp add: no_faults_def select_rows_def studio_def first_of_may_def
        fetchAvailableDatesForService_def joined_dates_def)
  have leaked: "availableDates
        (checkServiceConfiguration code_units (rejects_at 0) first_of_may catalog fresh_form
           studio ''color'') = [''2024-05-01'', ''2024-05-02'']"
    by (simp add: checkServiceConfiguration_def rejects_at_def select_rows_def studio_def
        first_of_may_def fetchGeneralAvailableDates_def)
  from times own leaked show ?thesis by simp
qed

text \<open>
  Every other failure does end in the empty result. That holds for an exception thrown
  by any store call a resolution-path function makes (call 2 of
  \<open>fetchServiceSpecificTimes\<close> is made for a service that the probe finds configured,
  calls 3 and 4 for one that it does not), and for a rejected catalog query, date
  lookup, service-times query or general-times query. A rejected suggestion query
  gives the hint to pick a date.
\<close>

lemma resolution_calls_that_end_empty:
  "(\<phi> 0 = Throws \<longrightarrow>
      fetchAvailableDatesForService \<phi> ck st serviceId = []
      \<and> fetchGeneralAvailableDates \<phi> ck st = []
      \<and> availableDates (checkServiceConfiguration collate \<phi> ck services fs st serviceId) = []
      \<and> serviceSuggestion (checkServiceConfiguration collate \<phi> ck services fs st serviceId) = NoSuggestion
      \<and> generateServiceSuggestion collate \<phi> ck services True current st serviceId = NoSuggestion
      \<and> fetchServiceSpecificTimes \<phi> st date serviceId = [])
   \<and> (\<phi> 1 = Throws \<longrightarrow>
      availableDates (checkServiceConfiguration collate \<phi> ck services fs st serviceId) = []
      \<and> fetchServiceSpecificTimes \<phi> st date serviceId = [])
   \<and> (\<phi> 2 = Throws \<and> \<phi> 1 = Answers
        \<and> filter (\<lambda>r. sa_service_id r = serviceId) (service_availability st) \<noteq> [] \<longrightarrow>
      fetchServiceSpecificTimes \<phi> st date serviceId = [])
   \<and> ((\<phi> 3 = Throws \<or> \<phi> 4 = Throws)
        \<and> (\<phi> 1 = Rejects
            \<or> filter (\<lambda>r. sa_service_id r = serviceId) (service_availability st) = []) \<longrightarrow>
      fetchServiceSpecificTimes \<phi> st date serviceId = [])
   \<and> (\<phi> 0 = Rejects \<longrightarrow>
      fetchAvailableDatesForService \<phi> ck st serviceId = []
      \<and> fetchGeneralAvailableDates \<phi> ck st = []
      \<and> generateServiceSuggestion collate \<phi> ck services True current st serviceId =
          PickADate (service_name_of services serviceId)
      \<and> fetchServiceSpecificTimes \<phi> st date serviceId = [])
   \<and> (\<phi> 2 = Rejects \<and> \<phi> 1 = Answers
        \<and> filter (\<lambda>r. sa_service_id r = serviceId) (service_availability st) \<noteq> [] \<longrightarrow>
      fetchServiceSpecificTimes \<phi> st date serviceId = [])
   \<and> (\<phi> 3 = Rejects
        \<and> (\<phi> 1 = Rejects
            \<or> filter (\<lambda>r. sa_service_id r = serviceId) (service_availability st) = []) \<longrightarrow>
      fetchServiceSpecificTimes \<phi> st date serviceId = [])
   \<and> (\<phi> 0 = Answers \<and> \<phi> 1 = Rejects \<and> \<phi> 3 = Answers \<and> \<phi> 4 = Answers \<longrightarrow>
      fetchServiceSpecificTimes \<phi> st date serviceId =
        (case single (filter (\<lambda>d. ad_date d = date) (available_dates st)) of
           None \<Rightarrow> []
         | Some dateRecord \<Rightarrow> general_tier st (ad_id dateRecord)))
   \<and> (\<phi> 0 = Answers \<and> \<phi> 3 = Answers \<and> \<phi> 4 = Rejects
        \<and> (\<phi> 1 = Rejects
            \<or> \<phi> 1 = Answers
              \<and> filter (\<lambda>r. sa_service_id r = serviceId) (service_availability st) = []) \<longrightarrow>
      fetchServiceSpecificTimes \<phi> st date serviceId =
        (case single (filter (\<lambda>d. ad_date d = date) (available_dates st)) of
           None \<Rightarrow> []
         | Some dateRecord \<Rightarrow> general_times st (ad_id dateRecord)))"
proof (intro conjI impI)
  assume "\<phi> 0 = Throws"
  then show "fetchAvailableDatesForService \<phi> ck st serviceId = []"
    "fetchGeneralAvailableDates \<phi> ck st = []"
    "availableDates (checkServiceConfiguration collate \<phi> ck services fs st serviceId) = []"
    "serviceSuggestion (checkServiceConfiguration collate \<phi> ck services fs st serviceId) = NoSuggestion"
    "generateServiceSuggestion collate \<phi> ck services True current st serviceId = NoSuggestion"
    "fetchServiceSpecificTimes \<phi> st date serviceId = []"
    by (simp_all add: fetchAvailableDatesForService_def fetchGeneralAvailableDates_def
        checkServiceConfiguration_def generateServiceSuggestion_def fetchServiceSpecificTimes_def
        select_rows_def maybeSingle_def)
next
  assume "\<phi> 1 = Throws"
  then show "availableDates (checkServiceConfiguration collate \<phi> ck services fs st serviceId) = []"
    by (simp add: checkServiceConfiguration_def fetchAvailableDatesForService_def
        fetchGeneralAvailableDates_def select_rows_def Let_def split: fault.splits)
next
  assume "\<phi> 1 = Throws"
  then show "fetchServiceSpecificTimes \<phi> st date serviceId = []"
    by (simp add: fetchServiceSpecificTimes_def select_rows_def maybeSingle_def
        split: fault.splits option.splits)
next
  assume "\<phi> 2 = Throws \<and> \<phi> 1 = Answers
        \<and> filter (\<lambda>r. sa_service_id r = serviceId) (service_availability st) \<noteq> []"
  then show "fetchServiceSpecificTimes \<phi> st date serviceId = []"
    by (simp add: fetchServiceSpecificTimes_def select_rows_def maybeSingle_def
        split: fault.splits option.splits)
next
  assume "(\<phi> 3 = Throws \<or> \<phi> 4 = Throws)
        \<and> (\<phi> 1 = Rejects
            \<or> filter (\<lambda>r. sa_service_id r = serviceId) (service_availability st) = [])"
  then show "fetchServiceSpecificTimes \<phi> st date serviceId = []"
    by (auto simp: fetchServiceSpecificTimes_def select_rows_def maybeSingle_def
        split: fault.splits option.splits)
next
  assume "\<phi> 0 = Rejects"
  then show "fetchAvailableDatesForService \<phi> ck st serviceId = []"
    "fetchGeneralAvailableDates \<phi> ck st = []"
    "generateServiceSuggestion collate \<phi> ck services True current st serviceId =
       PickADate (service_name_of services serviceId)"
    "fetchServiceSpecificTimes \<phi> st date serviceId = []"
    by (simp_all add: fetchAvailableDatesForService_def fetchGeneralAvailableDates_def
        generateServiceSuggestion_def fetchServiceSpecificTimes_def
        select_rows_def maybeSingle_def)
next
  assume "\<phi> 2 = Rejects \<and> \<phi> 1 = Answers
        \<and> filter (\<lambda>r. sa_service_id r = serviceId) (service_availability st) \<noteq> []"
  then show "fetchServiceSpecificTimes \<phi> st date serviceId = []"
    by (simp add: fetchServiceSpecificTimes_def select_rows_def maybeSingle_def
        split: fault.splits option.splits)
next
  assume "\<phi> 3 = Rejects
        \<and> (\<phi> 1 = Rejects
            \<or> filter (\<lambda>r. sa_service_id r = serviceId) (service_availability st) = [])"
  then show "fetchServiceSpecificTimes \<phi> st date serviceId = []"
    by (auto simp: fetchServiceSpecificTimes_def select_rows_def maybeSingle_def
        split: fault.splits option.splits)
next
  assume "\<phi> 0 = Answers \<and> \<phi> 1 = Rejects \<and> \<phi> 3 = Answers \<and> \<phi> 4 = Answers"
  then show "fetchServiceSpecificTimes \<phi> st date serviceId =
        (case single (filter (\<lambda>d. ad_date d = date) (available_dates st)) of
           None \<Rightarrow> []
         | Some dateRecord \<Rightarrow> general_tier st (ad_id dateRecord))"
    by (simp add: fetchServiceSpecificTimes_def maybeSingle_def select_rows_def
      filter_general_times all_service_times_def general_tier_def split: option.splits)
next
  assume "\<phi> 0 = Answers \<and> \<phi> 3 = Answers \<and> \<phi> 4 = Rejects
        \<and> (\<phi> 1 = Rejects
            \<or> \<phi> 1 = Answers
              \<and> filter (\<lambda>r. sa_service_id r = serviceId) (service_availability st) = [])"
  then show "fetchServiceSpecificTimes \<phi> st date serviceId =
        (case single (filter (\<lambda>d. ad_date d = date) (available_dates st)) of
           None \<Rightarrow> []
         | Some dateRecord \<Rightarrow> general_times st (ad_id dateRecord))"
    by (auto simp: fetchServiceSpecificTimes_def maybeSingle_def select_rows_def
       split: option.splits fault.splits)
qed

subsection \<open>Booking\<close>

lemma flipped_map:
  "flipped avail xs (map f xs) = filter (\<lambda>x. avail x \<and> \<not> avail (f x)) xs"
  by (induction xs) (simp_all add: flipped_def)

lemma flipped_same: "flipped avail xs xs = []"
  using flipped_map [of avail xs "\<lambda>x. x"] by simp

lemma single_SomeD: "single xs = Some x \<Longrightarrow> xs = [x]"
  by (cases xs rule: list.exhaust; cases "tl xs") (auto simp: single_def split: list.splits)

lemma single_filter_SomeD:
  "single (filter P xs) = Some x \<Longrightarrow> x \<in> set xs \<and> P x"
proof -
  assume "single (filter P xs) = Some x"
  then have "filter P xs = [x]" by (rule single_SomeD)
  then have "x \<in> set (filter P xs)" by simp
  then show ?thesis by simp
qed

lemma filter_key_distinct:
  assumes "distinct (map key xs)" and "x \<in> set xs"
  shows "filter (\<lambda>y. key y = key x \<and> Q y) xs = (if Q x then [x] else [])"
  using assms
proof (induction xs)
  case Nil
  then show ?case by simp
next
  case (Cons a xs)
  show ?case
  proof (cases "a = x")
    case True
    with Cons.prems have "key x \<notin> key ` set xs" by simp
    then have "\<forall>y \<in> set xs. key y \<noteq> key x" by (metis imageI)
    then have "filter (\<lambda>y. key y = key x \<and> Q y) xs = []" by (simp add: filter_empty_conv)
    with True show ?thesis by simp
  next
    case False
    with Cons.prems have "x \<in> set xs" and "key a \<noteq> key x" and "distinct (map key xs)"
      by force+
    with Cons.IH show ?thesis by simp
  qed
qed

lemma filter_key_distinct_le1:
  assumes "distinct (map key xs)"
  shows "length (filter (\<lambda>y. key y = k \<and> Q y) xs) \<le> 1"
proof (cases "\<exists>x \<in> set xs. key x = k")
  case True
  then obtain x where "x \<in> set xs" "key x = k" by blast
  with filter_key_distinct [OF assms, of x Q] show ?thesis by auto
next
  case False
  then have "filter (\<lambda>y. key y = k \<and> Q y) xs = []" by (simp add: filter_empty_conv)
  then show ?thesis by simp
qed

lemma handleSubmit_answers:
  assumes "name \<noteq> []" "service \<noteq> []" "date \<noteq> []" "time \<noteq> []"
  shows "handleSubmit no_faults st name service date time =
     \<lparr>sub_store =
        (let st1 = st\<lparr>appointments := appointments st @ [pending name service date time]\<rparr> in
         case single (filter (\<lambda>d. ad_date d = date) (available_dates st)) of
           None \<Rightarrow> st1
         | Some dateData \<Rightarrow>
             (case single (filter (\<lambda>r. sa_service_id r = service \<and> sa_date_id r = ad_id dateData
                                     \<and> sa_time r = time) (service_availability st)) of
                Some serviceAvailability \<Rightarrow>
                  mark_service_unavailable (sa_id serviceAvailability) st1
              | None \<Rightarrow> mark_general_unavailable (ad_id dateData) time st1)),
      submitted = True, signals = []\<rparr>"
  using assms
  by (simp add: handleSubmit_def no_faults_def maybeSingle_def pending_def Let_def
      split: option.splits)

lemma flipped_mark_service:
  "flipped sa_is_available rows
     (map (\<lambda>r. if sa_id r = rowId then r\<lparr>sa_is_available := False\<rparr> else r) rows) =
   filter (\<lambda>r. sa_id r = rowId \<and> sa_is_available r) rows"
  unfolding flipped_map by (rule filter_cong) auto

lemma flipped_mark_general:
  "flipped at_is_available rows
     (map (\<lambda>g. if at_date_id g = dateId \<and> at_time g = time
               then g\<lparr>at_is_available := False\<rparr> else g) rows) =
   filter (\<lambda>g. at_date_id g = dateId \<and> at_time g = time \<and> at_is_available g) rows"
  unfolding flipped_map by (rule filter_cong) auto

lemma single_map: "single (map f xs) = map_option f (single xs)"
  by (cases xs rule: list.exhaust; cases "tl xs") (auto simp: single_def split: list.splits)

lemma service_lookup_after_mark:
  "single (filter (\<lambda>r. sa_service_id r = service \<and> sa_date_id r = dateId \<and> sa_time r = time)
            (service_availability (mark_service_unavailable rowId st))) =
   map_option (\<lambda>r. if sa_id r = rowId then r\<lparr>sa_is_available := False\<rparr> else r)
     (single (filter (\<lambda>r. sa_service_id r = service \<and> sa_date_id r = dateId \<and> sa_time r = time)
               (service_availability st)))"
proof -
  have "filter (\<lambda>r. sa_service_id r = service \<and> sa_date_id r = dateId \<and> sa_time r = time)
          (map (\<lambda>r. if sa_id r = rowId then r\<lparr>sa_is_available := False\<rparr> else r)
             (service_availability st)) =
        map (\<lambda>r. if sa_id r = rowId then r\<lparr>sa_is_available := False\<rparr> else r)
          (filter (\<lambda>r. sa_service_id r = service \<and> sa_date_id r = dateId \<and> sa_time r = time)
             (service_availability st))"
    unfolding filter_map by (rule arg_cong [where f = "map _"], rule filter_cong) auto
  then show ?thesis
    by (simp add: mark_service_unavailable_def single_map)
qed

text \<open>
  C2, as the claim states it, fails: a booking for a time that has no slot row of either
  tier is reported as made and flips no slot record at all.
\<close>

theorem book_without_slot_flips_nothing:
  "submitted (handleSubmit no_faults salon ''Ana'' ''color'' ''2024-05-01'' ''15:00'')
   \<and> flipped sa_is_available (service_availability salon)
        (service_availability
           (sub_store (handleSubmit no_faults salon ''Ana'' ''color'' ''2024-05-01'' ''15:00''))) = []
   \<and> flipped at_is_available (available_times salon)
        (available_times
           (sub_store (handleSubmit no_faults salon ''Ana'' ''color'' ''2024-05-01'' ''15:00''))) = []"
  by (simp add: handleSubmit_def no_faults_def maybeSingle_def single_def salon_def
      mark_general_unavailable_def flipped_def)

text \<open>
  C2, amended. With valid inputs and the store answering, in a store whose
  service-specific rows have distinct ids and whose general rows have distinct
  (date, time) pairs, a booking is reported as made and flips at most one slot record.
  When the date has a date row and exactly one service-specific row matches the service,
  the date and the time, that row is the one flipped if it was available, and no general
  row is touched. Otherwise no service-specific row is touched and the general row of
  the date and time is flipped if there is one and it was available. Nothing is flipped
  when the date has no date row.
\<close>

theorem book_flips_at_most_one:
  fixes st :: store and name service date time :: string
  defines "r \<equiv> handleSubmit no_faults st name service date time"
  defines "fs \<equiv> flipped sa_is_available (service_availability st)
                   (service_availability (sub_store r))"
  defines "fg \<equiv> flipped at_is_available (available_times st) (available_times (sub_store r))"
  assumes valid: "name \<noteq> []" "service \<noteq> []" "date \<noteq> []" "time \<noteq> []"
    and ids: "distinct (map sa_id (service_availability st))"
    and slots: "distinct (map (\<lambda>g. (at_date_id g, at_time g)) (available_times st))"
  shows "submitted r
     \<and> length (service_availability (sub_store r)) = length (service_availability st)
     \<and> length (available_times (sub_store r)) = length (available_times st)
     \<and> length fs + length fg \<le> 1
     \<and> (case single (filter (\<lambda>d. ad_date d = date) (available_dates st)) of
          None \<Rightarrow> fs = [] \<and> fg = []
        | Some dateRecord \<Rightarrow>
            (case single (filter (\<lambda>s. sa_service_id s = service
                                    \<and> sa_date_id s = ad_id dateRecord \<and> sa_time s = time)
                            (service_availability st)) of
               Some serviceSlot \<Rightarrow>
                 fs = (if sa_is_available serviceSlot then [serviceSlot] else []) \<and> fg = []
             | None \<Rightarrow>
                 fs = [] \<and>
                 fg = filter (\<lambda>g. at_date_id g = ad_id dateRecord \<and> at_time g = time
                                 \<and> at_is_available g) (available_times st)))"
proof (cases "single (filter (\<lambda>d. ad_date d = date) (available_dates st))")
  case None
  with handleSubmit_answers [OF valid, of st] show ?thesis
    by (simp add: r_def fs_def fg_def flipped_same)
next
  case day: (Some dateRecord)
  show ?thesis
  proof (cases "single (filter (\<lambda>s. sa_service_id s = service
                  \<and> sa_date_id s = ad_id dateRecord \<and> sa_time s = time)
                  (service_availability st))")
    case None
    have "length (filter (\<lambda>g. (at_date_id g, at_time g) = (ad_id dateRecord, time)
                      \<and> at_is_available g) (available_times st)) \<le> 1"
      by (rule filter_key_distinct_le1 [OF slots])
    then have "length (filter (\<lambda>g. at_date_id g = ad_id dateRecord \<and> at_time g = time
                      \<and> at_is_available g) (available_times st)) \<le> 1"
      by (simp add: conj_assoc)
    with handleSubmit_answers [OF valid, of st] day None show ?thesis
      by (simp add: r_def fs_def fg_def flipped_same mark_general_unavailable_def
          flipped_mark_general)
  next
    case (Some serviceSlot)
    then have "serviceSlot \<in> set (service_availability st)"
      using single_filter_SomeD by fast
    from filter_key_distinct [OF ids this, of sa_is_available]
    have "filter (\<lambda>r. sa_id r = sa_id serviceSlot \<and> sa_is_available r)
            (service_availability st) =
          (if sa_is_available serviceSlot then [serviceSlot] else [])" .
    with handleSubmit_answers [OF valid, of st] day Some show ?thesis
      by (simp add: r_def fs_def fg_def flipped_same mark_service_unavailable_def
          flipped_mark_service)
  qed
qed

theorem book_flips_at_most_one_witness:
  "''Ana'' \<noteq> [] \<and> ''cut'' \<noteq> [] \<and> ''color'' \<noteq> [] \<and> ''2024-05-01'' \<noteq> []
   \<and> ''09:00'' \<noteq> [] \<and> ''10:00'' \<noteq> []
   \<and> distinct (map sa_id (service_availability salon))
   \<and> distinct (map (\<lambda>g. (at_date_id g, at_time g)) (available_times salon))
   \<and> flipped sa_is_available (service_availability salon)
        (service_availability
           (sub_store (handleSubmit no_faults salon ''Ana'' ''cut'' ''2024-05-01'' ''09:00''))) =
       [\<lparr>sa_id = 1, sa_service_id = ''cut'', sa_date_id = 1, sa_time = ''09:00'',
         sa_is_available = True\<rparr>]
   \<and> flipped at_is_available (available_times salon)
        (available_times
           (sub_store (handleSubmit no_faults salon ''Ana'' ''cut'' ''2024-05-01'' ''09:00''))) = []
   \<and> flipped sa_is_available (service_availability salon)
        (service_availability
           (sub_store (handleSubmit no_faults salon ''Ana'' ''color'' ''2024-05-01'' ''10:00''))) = []
   \<and> flipped at_is_available (available_times salon)
        (available_times
           (sub_store (handleSubmit no_faults salon ''Ana'' ''color'' ''2024-05-01'' ''10:00''))) =
       [\<lparr>at_id = 1, at_date_id = 1, at_time = ''10:00'', at_is_available = True\<rparr>]"
proof -
  have ids: "distinct (map sa_id (service_availability salon))"
    and slots: "distinct (map (\<lambda>g. (at_date_id g, at_time g)) (available_times salon))"
    by (simp_all add: salon_def)
  have day: "single (filter (\<lambda>d. ad_date d = ''2024-05-01'') (available_dates salon)) =
               Some \<lparr>ad_id = 1, ad_date = ''2024-05-01''\<rparr>"
    by (simp add: salon_def single_def)
  have cut: "single (filter (\<lambda>s. sa_service_id s = ''cut'' \<and> sa_date_id s = Suc 0
                 \<and> sa_time s = ''09:00'') (service_availability salon)) =
             Some \<lparr>sa_id = 1, sa_service_id = ''cut'', sa_date_id = 1, sa_time = ''09:00'',
                   sa_is_available = True\<rparr>"
    and color: "single (filter (\<lambda>s. sa_service_id s = ''color'' \<and> sa_date_id s = Suc 0
                 \<and> sa_time s = ''10:00'') (service_availability salon)) = None"
    by (simp_all add: salon_def single_def)
  have ten: "filter (\<lambda>g. at_date_id g = Suc 0 \<and> at_time g = ''10:00'' \<and> at_is_available g)
               (available_times salon) =
             [\<lparr>at_id = 1, at_date_id = 1, at_time = ''10:00'', at_is_available = True\<rparr>]"
    by (simp add: salon_def)
  have a: "flipped sa_is_available (service_availability salon)
        (service_availability
           (sub_store (handleSubmit no_faults salon ''Ana'' ''cut'' ''2024-05-01'' ''09:00''))) =
       [\<lparr>sa_id = 1, sa_service_id = ''cut'', sa_date_id = 1, sa_time = ''09:00'',
         sa_is_available = True\<rparr>]
     \<and> flipped at_is_available (available_times salon)
        (available_times
           (sub_store (handleSubmit no_faults salon ''Ana'' ''cut'' ''2024-05-01'' ''09:00''))) = []"
    using book_flips_at_most_one [where st = salon and name = "''Ana''" and service = "''cut''"
        and date = "''2024-05-01''" and time = "''09:00''", OF _ _ _ _ ids slots]
    unfolding day by (simp add: cut)
  have b: "flipped sa_is_available (service_availability salon)
        (service_availability
           (sub_store (handleSubmit no_faults salon ''Ana'' ''color'' ''2024-05-01'' ''10:00''))) = []
     \<and> flipped at_is_available (available_times salon)
        (available_times
           (sub_store (handleSubmit no_faults salon ''Ana'' ''color'' ''2024-05-01'' ''10:00''))) =
       [\<lparr>at_id = 1, at_date_id = 1, at_time = ''10:00'', at_is_available = True\<rparr>]"
    using book_flips_at_most_one [where st = salon and name = "''Ana''" and service = "''color''"
        and date = "''2024-05-01''" and time = "''10:00''", OF _ _ _ _ ids slots]
    unfolding day by (simp add: color ten)
  from ids slots a b show ?thesis by simp
qed

text \<open>
  C3, as the claim states it, fails: a booking that finds no slot row to flip raises no
  alert and logs nothing; what the caller sees is the same as for any other booking.
\<close>

theorem book_without_slot_signals_nothing:
  "handleSubmit no_faults salon ''Ana'' ''cut'' ''2024-05-01'' ''15:00'' =
     \<lparr>sub_store = salon\<lparr>appointments := [pending ''Ana'' ''cut'' ''2024-05-01'' ''15:00'']\<rparr>,
      submitted = True, signals = []\<rparr>"
  by (simp add: handleSubmit_def no_faults_def maybeSingle_def single_def salon_def
      mark_general_unavailable_def pending_def)

text \<open>
  C3, amended. With valid inputs and the store answering, when no date row of the date
  has a matching service-specific row or a matching general row, the booking keeps the
  appointment it inserted, changes nothing else in the store, is reported as made, and
  signals nothing.
\<close>

theorem book_without_slot_is_silent:
  assumes valid: "name \<noteq> []" "service \<noteq> []" "date \<noteq> []" "time \<noteq> []"
    and neither: "\<forall>d \<in> set (available_dates st). ad_date d = date \<longrightarrow>
        filter (\<lambda>s. sa_service_id s = service \<and> sa_date_id s = ad_id d \<and> sa_time s = time)
          (service_availability st) = []
        \<and> filter (\<lambda>g. at_date_id g = ad_id d \<and> at_time g = time) (available_times st) = []"
  shows "handleSubmit no_faults st name service date time =
           \<lparr>sub_store = st\<lparr>appointments := appointments st @ [pending name service date time]\<rparr>,
            submitted = True, signals = []\<rparr>"
proof (cases "single (filter (\<lambda>d. ad_date d = date) (available_dates st))")
  case None
  with handleSubmit_answers [OF valid, of st] show ?thesis by simp
next
  case (Some dateRecord)
  then have "dateRecord \<in> set (available_dates st) \<and> ad_date dateRecord = date"
    by (rule single_filter_SomeD)
  with neither have
    no_service: "filter (\<lambda>s. sa_service_id s = service \<and> sa_date_id s = ad_id dateRecord
                   \<and> sa_time s = time) (service_availability st) = []"
    and no_general: "filter (\<lambda>g. at_date_id g = ad_id dateRecord \<and> at_time g = time)
                   (available_times st) = []"
    by auto
  from no_general have "map (\<lambda>g. if at_date_id g = ad_id dateRecord \<and> at_time g = time
                    then g\<lparr>at_is_available := False\<rparr> else g) (available_times st) =
          available_times st"
    by (intro map_idI) (auto simp: filter_empty_conv)
  with handleSubmit_answers [OF valid, of st] Some no_service show ?thesis
    by (simp add: single_def mark_general_unavailable_def)
qed

theorem book_without_slot_is_silent_witness:
  "''Ana'' \<noteq> [] \<and> ''cut'' \<noteq> [] \<and> ''2024-05-01'' \<noteq> [] \<and> ''16:30'' \<noteq> []
   \<and> filter (\<lambda>d. ad_date d = ''2024-05-01'') (available_dates salon) =
       [\<lparr>ad_id = 1, ad_date = ''2024-05-01''\<rparr>]
   \<and> filter (\<lambda>s. sa_service_id s = ''cut'' \<and> sa_date_id s = 1 \<and> sa_time s = ''16:30'')
       (service_availability salon) = []
   \<and> filter (\<lambda>g. at_date_id g = 1 \<and> at_time g = ''16:30'') (available_times salon) = []
   \<and> handleSubmit no_faults salon ''Ana'' ''cut'' ''2024-05-01'' ''16:30'' =
       \<lparr>sub_store = salon\<lparr>appointments := appointments salon @
                      [pending ''Ana'' ''cut'' ''2024-05-01'' ''16:30'']\<rparr>,
        submitted = True, signals = []\<rparr>"
proof -
  have day: "filter (\<lambda>d. ad_date d = ''2024-05-01'') (available_dates salon) =
       [\<lparr>ad_id = 1, ad_date = ''2024-05-01''\<rparr>]"
    and none: "filter (\<lambda>s. sa_service_id s = ''cut'' \<and> sa_date_id s = 1 \<and> sa_time s = ''16:30'')
       (service_availability salon) = []"
      "filter (\<lambda>g. at_date_id g = 1 \<and> at_time g = ''16:30'') (available_times salon) = []"
    by (simp_all add: salon_def)
  have "\<forall>d \<in> set (available_dates salon). ad_date d = ''2024-05-01'' \<longrightarrow>
        filter (\<lambda>s. sa_service_id s = ''cut'' \<and> sa_date_id s = ad_id d \<and> sa_time s = ''16:30'')
          (service_availability salon) = []
        \<and> filter (\<lambda>g. at_date_id g = ad_id d \<and> at_time g = ''16:30'') (available_times salon) = []"
    by (simp add: salon_def)
  from book_without_slot_is_silent [OF _ _ _ _ this, of "''Ana''"] day none
  show ?thesis by simp
qed

lemma handleSubmit_accepted:
  assumes valid: "name \<noteq> []" "service \<noteq> []" "date \<noteq> []" "time \<noteq> []"
    and insert: "\<phi> 0 = Answers"
    and calm: "\<forall>k. \<phi> k \<noteq> Throws"
  shows "submitted (handleSubmit \<phi> st name service date time)
     \<and> appointments (sub_store (handleSubmit \<phi> st name service date time)) =
         appointments st @ [pending name service date time]"
proof -
  from calm have "\<phi> 1 \<noteq> Throws" "\<phi> 2 \<noteq> Throws" "\<phi> 3 \<noteq> Throws" "\<phi> 4 \<noteq> Throws"
    by blast+
  with valid insert show ?thesis
    by (simp add: handleSubmit_def maybeSingle_def pending_def Let_def
        mark_service_unavailable_def mark_general_unavailable_def
        split: fault.splits option.splits)
qed

lemma second_booking_changes_no_slot:
  fixes st :: store and name service date time :: string
  defines "first \<equiv> handleSubmit no_faults st name service date time"
  defines "second \<equiv> handleSubmit no_faults (sub_store first) name service date time"
  assumes valid: "name \<noteq> []" "service \<noteq> []" "date \<noteq> []" "time \<noteq> []"
  shows "submitted first \<and> signals first = []
     \<and> appointments (sub_store first) = appointments st @ [pending name service date time]
     \<and> submitted second \<and> signals second = []
     \<and> appointments (sub_store second) =
         appointments st @ [pending name service date time, pending name service date time]
     \<and> service_availability (sub_store second) = service_availability (sub_store first)
     \<and> available_times (sub_store second) = available_times (sub_store first)"
proof -
  let ?st1 = "st\<lparr>appointments := appointments st @ [pending name service date time]\<rparr>"
  note first = handleSubmit_answers [OF valid, of st, folded first_def]
  note second = handleSubmit_answers [OF valid, of "sub_store first", folded second_def]
  show ?thesis
  proof (cases "single (filter (\<lambda>d. ad_date d = date) (available_dates st))")
    case None
    then have s1: "sub_store first = ?st1" and ok1: "submitted first" "signals first = []"
      using first by simp_all
    from second None show ?thesis unfolding s1 using ok1 by simp
  next
    case day: (Some dateRecord)
    show ?thesis
    proof (cases "single (filter (\<lambda>s. sa_service_id s = service
                    \<and> sa_date_id s = ad_id dateRecord \<and> sa_time s = time)
                    (service_availability st))")
      case None
      then have s1: "sub_store first = mark_general_unavailable (ad_id dateRecord) time ?st1"
        and ok1: "submitted first" "signals first = []"
        using first day by simp_all
      have dates: "available_dates (mark_general_unavailable (ad_id dateRecord) time ?st1) =
                     available_dates st"
        and rows: "service_availability (mark_general_unavailable (ad_id dateRecord) time ?st1) =
                     service_availability st"
        and apps: "appointments (mark_general_unavailable (ad_id dateRecord) time ?st1) =
                     appointments st @ [pending name service date time]"
        by (simp_all add: mark_general_unavailable_def)
      have "sub_store second =
              (mark_general_unavailable (ad_id dateRecord) time ?st1)
                \<lparr>appointments := appointments st @
                   [pending name service date time, pending name service date time]\<rparr>"
        using second day None
        by (simp add: s1 mark_general_unavailable_def o_def)
      moreover have "submitted second" "signals second = []" using second by simp_all
      ultimately show ?thesis unfolding s1 using ok1
        by (simp add: mark_general_unavailable_def)
    next
      case (Some serviceSlot)
      then have s1: "sub_store first = mark_service_unavailable (sa_id serviceSlot) ?st1"
        and ok1: "submitted first" "signals first = []"
        using first day by simp_all
      have dates: "available_dates (mark_service_unavailable (sa_id serviceSlot) ?st1) =
                     available_dates st"
        and apps: "appointments (mark_service_unavailable (sa_id serviceSlot) ?st1) =
                     appointments st @ [pending name service date time]"
        by (simp_all add: mark_service_unavailable_def)
      have look: "single (filter (\<lambda>s. sa_service_id s = service
                    \<and> sa_date_id s = ad_id dateRecord \<and> sa_time s = time)
                    (service_availability (mark_service_unavailable (sa_id serviceSlot) ?st1))) =
                  Some (serviceSlot\<lparr>sa_is_available := False\<rparr>)"
        unfolding service_lookup_after_mark using Some by simp
      have "sub_store second =
              mark_service_unavailable (sa_id serviceSlot)
                ((mark_service_unavailable (sa_id serviceSlot) ?st1)
                   \<lparr>appointments := appointments st @
                      [pending name service date time, pending name service date time]\<rparr>)"
        using second day look by (simp add: s1 dates apps)
      also have "\<dots> =
              (mark_service_unavailable (sa_id serviceSlot) ?st1)
                \<lparr>appointments := appointments st @
                   [pending name service date time, pending name service date time]\<rparr>"
        by (simp add: mark_service_unavailable_def o_def)
      finally have "sub_store second =
              (mark_service_unavailable (sa_id serviceSlot) ?st1)
                \<lparr>appointments := appointments st @
                   [pending name service date time, pending name service date time]\<rparr>" .
      moreover have "submitted second" "signals second = []" using second by simp_all
      ultimately show ?thesis unfolding s1 using ok1
        by (simp add: mark_service_unavailable_def)
    qed
  qed
qed

lemma first_booking_tables:
  assumes valid: "name \<noteq> []" "service \<noteq> []" "date \<noteq> []" "time \<noteq> []"
  shows "(service_availability (sub_store (handleSubmit no_faults st name service date time)),
          available_times (sub_store (handleSubmit no_faults st name service date time))) =
         slots_after_booking st service date time"
  using handleSubmit_answers [OF valid, of st]
  by (simp add: mark_service_unavailable_def mark_general_unavailable_def
      slots_after_booking_def split: option.splits)

lemma marked_service_rows_unavailable:
  assumes id: "sa_id r = k"
    and mem: "r \<in> set (map (\<lambda>r. if sa_id r = k then r\<lparr>sa_is_available := False\<rparr> else r) rows)"
  shows "\<not> sa_is_available r"
proof -
  from mem have "r \<in> (\<lambda>r. if sa_id r = k then r\<lparr>sa_is_available := False\<rparr> else r) ` set rows"
    by (simp only: set_map)
  then obtain x where x: "r = (if sa_id x = k then x\<lparr>sa_is_available := False\<rparr> else x)"
    by (rule imageE)
  show ?thesis
  proof (cases "sa_id x = k")
    case True
    with x have "r = x\<lparr>sa_is_available := False\<rparr>" by simp
    then show ?thesis by simp
  next
    case False
    with x have "r = x" by simp
    with id False show ?thesis by simp
  qed
qed

lemma marked_general_rows_unavailable:
  assumes key: "at_date_id g = dateId" "at_time g = t"
    and mem: "g \<in> set (map (\<lambda>g. if at_date_id g = dateId \<and> at_time g = t
                               then g\<lparr>at_is_available := False\<rparr> else g) rows)"
  shows "\<not> at_is_available g"
proof -
  from mem have "g \<in> (\<lambda>g. if at_date_id g = dateId \<and> at_time g = t
                          then g\<lparr>at_is_available := False\<rparr> else g) ` set rows"
    by (simp only: set_map)
  then obtain x where x: "g = (if at_date_id x = dateId \<and> at_time x = t
                               then x\<lparr>at_is_available := False\<rparr> else x)"
    by (rule imageE)
  show ?thesis
  proof (cases "at_date_id x = dateId \<and> at_time x = t")
    case True
    with x have "g = x\<lparr>at_is_available := False\<rparr>" by simp
    then show ?thesis by simp
  next
    case False
    with x have "g = x" by simp
    with key False show ?thesis by simp
  qed
qed

lemma slots_after_booking_service_flag:
  assumes "single (filter (\<lambda>d. ad_date d = date) (available_dates st)) = Some dateRecord"
    and "single (filter (\<lambda>s. sa_service_id s = service \<and> sa_date_id s = ad_id dateRecord
                           \<and> sa_time s = time) (service_availability st)) = Some serviceSlot"
    and "r \<in> set (fst (slots_after_booking st service date time))"
    and "sa_id r = sa_id serviceSlot"
  shows "\<not> sa_is_available r"
proof -
  from assms(1,2) have "fst (slots_after_booking st service date time) =
      map (\<lambda>r. if sa_id r = sa_id serviceSlot then r\<lparr>sa_is_available := False\<rparr> else r)
        (service_availability st)"
    by (simp add: slots_after_booking_def)
  with assms(3) have "r \<in> set (map (\<lambda>r. if sa_id r = sa_id serviceSlot
      then r\<lparr>sa_is_available := False\<rparr> else r) (service_availability st))"
    by simp
  with assms(4) show ?thesis by (rule marked_service_rows_unavailable)
qed

lemma slots_after_booking_general_flag:
  assumes "single (filter (\<lambda>d. ad_date d = date) (available_dates st)) = Some dateRecord"
    and "single (filter (\<lambda>s. sa_service_id s = service \<and> sa_date_id s = ad_id dateRecord
                           \<and> sa_time s = time) (service_availability st)) = None"
    and "g \<in> set (snd (slots_after_booking st service date time))"
    and "at_date_id g = ad_id dateRecord" "at_time g = time"
  shows "\<not> at_is_available g"
proof -
  from assms(1,2) have "snd (slots_after_booking st service date time) =
      map (\<lambda>g. if at_date_id g = ad_id dateRecord \<and> at_time g = time
                then g\<lparr>at_is_available := False\<rparr> else g)
        (available_times st)"
    by (simp add: slots_after_booking_def)
  with assms(3) have "g \<in> set (map (\<lambda>g. if at_date_id g = ad_id dateRecord \<and> at_time g = time
      then g\<lparr>at_is_available := False\<rparr> else g) (available_times st))"
    by simp
  with assms(4,5) show ?thesis by (rule marked_general_rows_unavailable)
qed

text \<open>
  C10. In every store, with valid inputs, two bookings in a row with the same inputs
  are both reported as made and each appends one pending appointment, provided the
  store accepts both inserts and no call throws; no flag of the store is a condition of
  this. When the store answers every call, neither booking signals anything; after the
  first booking the slot tables are those of the store with the flag of the matching
  slot set to false, and after the second they are the same again: the row the booking
  matched is unavailable, whatever its flag was before.
\<close>

theorem book_twice_succeeds_twice:
  fixes st :: store and name service date time :: string and \<phi> \<psi> :: faults
  defines "first \<equiv> handleSubmit \<phi> st name service date time"
  defines "second \<equiv> handleSubmit \<psi> (sub_store first) name service date time"
  assumes valid: "name \<noteq> []" "service \<noteq> []" "date \<noteq> []" "time \<noteq> []"
    and inserts: "\<phi> 0 = Answers" "\<psi> 0 = Answers"
    and calm: "\<forall>k. \<phi> k \<noteq> Throws" "\<forall>k. \<psi> k \<noteq> Throws"
  shows "submitted first
     \<and> appointments (sub_store first) = appointments st @ [pending name service date time]
     \<and> submitted second
     \<and> appointments (sub_store second) =
         appointments st @ [pending name service date time, pending name service date time]
     \<and> (\<phi> = no_faults \<and> \<psi> = no_faults \<longrightarrow>
          signals first = [] \<and> signals second = []
          \<and> (service_availability (sub_store first), available_times (sub_store first)) =
              slots_after_booking st service date time
          \<and> (service_availability (sub_store second), available_times (sub_store second)) =
              slots_after_booking st service date time
          \<and> (\<forall>dateRecord serviceSlot.
                single (filter (\<lambda>d. ad_date d = date) (available_dates st)) = Some dateRecord
                \<and> single (filter (\<lambda>s. sa_service_id s = service
                                     \<and> sa_date_id s = ad_id dateRecord \<and> sa_time s = time)
                             (service_availability st)) = Some serviceSlot \<longrightarrow>
                (\<forall>r \<in> set (service_availability (sub_store second)).
                   sa_id r = sa_id serviceSlot \<longrightarrow> \<not> sa_is_available r))
          \<and> (\<forall>dateRecord.
                single (filter (\<lambda>d. ad_date d = date) (available_dates st)) = Some dateRecord
                \<and> single (filter (\<lambda>s. sa_service_id s = service
                                     \<and> sa_date_id s = ad_id dateRecord \<and> sa_time s = time)
                             (service_availability st)) = None \<longrightarrow>
                (\<forall>g \<in> set (available_times (sub_store second)).
                   at_date_id g = ad_id dateRecord \<and> at_time g = time \<longrightarrow>
                   \<not> at_is_available g)))"
proof -
  note one = handleSubmit_accepted [OF valid inserts(1) calm(1), of st, folded first_def]
  note two = handleSubmit_accepted [OF valid inserts(2) calm(2), of "sub_store first",
      folded second_def]
  show ?thesis
  proof (intro conjI impI allI ballI)
    show "submitted first"
      "appointments (sub_store first) = appointments st @ [pending name service date time]"
      "submitted second"
      "appointments (sub_store second) =
         appointments st @ [pending name service date time, pending name service date time]"
      using one two by simp_all
  next
    assume both: "\<phi> = no_faults \<and> \<psi> = no_faults"
    then have eqs: "first = handleSubmit no_faults st name service date time"
      "second = handleSubmit no_faults (sub_store first) name service date time"
      by (simp_all add: first_def second_def)
    from second_booking_changes_no_slot [OF valid, of st]
    show "signals first = []" "signals second = []"
      unfolding eqs by simp_all
  next
    assume both: "\<phi> = no_faults \<and> \<psi> = no_faults"
    then have eq1: "first = handleSubmit no_faults st name service date time"
      by (simp add: first_def)
    show "(service_availability (sub_store first), available_times (sub_store first)) =
              slots_after_booking st service date time"
      unfolding eq1 by (rule first_booking_tables [OF valid])
  next
    assume both: "\<phi> = no_faults \<and> \<psi> = no_faults"
    then have eqs: "first = handleSubmit no_faults st name service date time"
      "second = handleSubmit no_faults (sub_store first) name service date time"
      by (simp_all add: first_def second_def)
    from second_booking_changes_no_slot [OF valid, of st]
    have same: "service_availability (sub_store second) = service_availability (sub_store first)"
        "available_times (sub_store second) = available_times (sub_store first)"
      unfolding eqs by simp_all
    have tab: "(service_availability (sub_store second), available_times (sub_store second)) =
              slots_after_booking st service date time"
      unfolding same unfolding eqs(1) by (rule first_booking_tables [OF valid])
    show "(service_availability (sub_store second), available_times (sub_store second)) =
              slots_after_booking st service date time"
      by (rule tab)
    {
      fix dateRecord serviceSlot r
      assume look: "single (filter (\<lambda>d. ad_date d = date) (available_dates st)) = Some dateRecord
                \<and> single (filter (\<lambda>s. sa_service_id s = service
                                     \<and> sa_date_id s = ad_id dateRecord \<and> sa_time s = time)
                             (service_availability st)) = Some serviceSlot"
        and r: "r \<in> set (service_availability (sub_store second))"
          "sa_id r = sa_id serviceSlot"
      from arg_cong [OF tab, of fst]
      have "service_availability (sub_store second) =
              fst (slots_after_booking st service date time)"
        by simp
      with r have mem: "r \<in> set (fst (slots_after_booking st service date time))" by simp
      from look have l1: "single (filter (\<lambda>d. ad_date d = date) (available_dates st)) =
          Some dateRecord"
        and l2: "single (filter (\<lambda>s. sa_service_id s = service
                   \<and> sa_date_id s = ad_id dateRecord \<and> sa_time s = time)
                   (service_availability st)) = Some serviceSlot"
        by simp_all
      show "\<not> sa_is_available r"
        by (rule slots_after_booking_service_flag [OF l1 l2 mem r(2)])
    }
    {
      fix dateRecord g
      assume look: "single (filter (\<lambda>d. ad_date d = date) (available_dates st)) = Some dateRecord
                \<and> single (filter (\<lambda>s. sa_service_id s = service
                                     \<and> sa_date_id s = ad_id dateRecord \<and> sa_time s = time)
                             (service_availability st)) = None"
        and g: "g \<in> set (available_times (sub_store second))"
          "at_date_id g = ad_id dateRecord \<and> at_time g = time"
      from arg_cong [OF tab, of snd]
      have "available_times (sub_store second) =
              snd (slots_after_booking st service date time)"
        by simp
      with g have mem: "g \<in> set (snd (slots_after_booking st service date time))" by simp
      from look have l1: "single (filter (\<lambda>d. ad_date d = date) (available_dates st)) =
          Some dateRecord"
        and l2: "single (filter (\<lambda>s. sa_service_id s = service
                   \<and> sa_date_id s = ad_id dateRecord \<and> sa_time s = time)
                   (service_availability st)) = None"
        by simp_all
      from g(2) have g1: "at_date_id g = ad_id dateRecord" and g2: "at_time g = time"
        by simp_all
      show "\<not> at_is_available g"
        by (rule slots_after_booking_general_flag [OF l1 l2 mem g1 g2])
    }
  qed
qed

theorem book_twice_succeeds_twice_witness:
  "''Ana'' \<noteq> [] \<and> ''color'' \<noteq> [] \<and> ''cut'' \<noteq> [] \<and> ''2024-05-01'' \<noteq> []
   \<and> ''10:00'' \<noteq> [] \<and> ''09:00'' \<noteq> []
   \<and> no_faults 0 = Answers \<and> (\<forall>k. no_faults k \<noteq> Throws)
   \<and> submitted (handleSubmit no_faults salon ''Ana'' ''color'' ''2024-05-01'' ''10:00'')
   \<and> submitted (handleSubmit no_faults
        (sub_store (handleSubmit no_faults salon ''Ana'' ''color'' ''2024-05-01'' ''10:00''))
        ''Ana'' ''color'' ''2024-05-01'' ''10:00'')
   \<and> appointments (sub_store (handleSubmit no_faults
        (sub_store (handleSubmit no_faults salon ''Ana'' ''color'' ''2024-05-01'' ''10:00''))
        ''Ana'' ''color'' ''2024-05-01'' ''10:00'')) =
       [pending ''Ana'' ''color'' ''2024-05-01'' ''10:00'',
        pending ''Ana'' ''color'' ''2024-05-01'' ''10:00'']
   \<and> available_times salon =
       [\<lparr>at_id = 1, at_date_id = 1, at_time = ''10:00'', at_is_available = True\<rparr>,
        \<lparr>at_id = 2, at_date_id = 1, at_time = ''09:00'', at_is_available = True\<rparr>,
        \<lparr>at_id = 3, at_date_id = 1, at_time = ''11:00'', at_is_available = False\<rparr>]
   \<and> available_times (sub_store (handleSubmit no_faults
        (sub_store (handleSubmit no_faults salon ''Ana'' ''color'' ''2024-05-01'' ''10:00''))
        ''Ana'' ''color'' ''2024-05-01'' ''10:00'')) =
       [\<lparr>at_id = 1, at_date_id = 1, at_time = ''10:00'', at_is_available = False\<rparr>,
        \<lparr>at_id = 2, at_date_id = 1, at_time = ''09:00'', at_is_available = True\<rparr>,
        \<lparr>at_id = 3, at_date_id = 1, at_time = ''11:00'', at_is_available = False\<rparr>]
   \<and> service_availability (sub_store (handleSubmit no_faults
        (sub_store (handleSubmit no_faults salon ''Ana'' ''cut'' ''2024-05-01'' ''09:00''))
        ''Ana'' ''cut'' ''2024-05-01'' ''09:00'')) =
       [\<lparr>sa_id = 1, sa_service_id = ''cut'', sa_date_id = 1, sa_time = ''09:00'',
         sa_is_available = False\<rparr>]
   \<and> available_times (sub_store (handleSubmit no_faults
        (sub_store (handleSubmit no_faults salon ''Ana'' ''cut'' ''2024-05-01'' ''09:00''))
        ''Ana'' ''cut'' ''2024-05-01'' ''09:00'')) = available_times salon"
proof -
  have store: "appointments salon = []"
    "available_times salon =
       [\<lparr>at_id = 1, at_date_id = 1, at_time = ''10:00'', at_is_available = True\<rparr>,
        \<lparr>at_id = 2, at_date_id = 1, at_time = ''09:00'', at_is_available = True\<rparr>,
        \<lparr>at_id = 3, at_date_id = 1, at_time = ''11:00'', at_is_available = False\<rparr>]"
    by (simp_all add: salon_def)
  have calm: "no_faults 0 = Answers" "\<forall>k. no_faults k \<noteq> Throws"
    by (simp_all add: no_faults_def)
  have color: "slots_after_booking salon ''color'' ''2024-05-01'' ''10:00'' =
      (service_availability salon,
       [\<lparr>at_id = 1, at_date_id = 1, at_time = ''10:00'', at_is_available = False\<rparr>,
        \<lparr>at_id = 2, at_date_id = 1, at_time = ''09:00'', at_is_available = True\<rparr>,
        \<lparr>at_id = 3, at_date_id = 1, at_time = ''11:00'', at_is_available = False\<rparr>])"
    and cut: "slots_after_booking salon ''cut'' ''2024-05-01'' ''09:00'' =
      ([\<lparr>sa_id = 1, sa_service_id = ''cut'', sa_date_id = 1, sa_time = ''09:00'',
         sa_is_available = False\<rparr>], available_times salon)"
    by (simp_all add: slots_after_booking_def salon_def single_def)
  have a: "submitted (handleSubmit no_faults salon ''Ana'' ''color'' ''2024-05-01'' ''10:00'')
     \<and> submitted (handleSubmit no_faults
        (sub_store (handleSubmit no_faults salon ''Ana'' ''color'' ''2024-05-01'' ''10:00''))
        ''Ana'' ''color'' ''2024-05-01'' ''10:00'')
     \<and> appointments (sub_store (handleSubmit no_faults
        (sub_store (handleSubmit no_faults salon ''Ana'' ''color'' ''2024-05-01'' ''10:00''))
        ''Ana'' ''color'' ''2024-05-01'' ''10:00'')) =
       [pending ''Ana'' ''color'' ''2024-05-01'' ''10:00'',
        pending ''Ana'' ''color'' ''2024-05-01'' ''10:00'']
     \<and> (service_availability (sub_store (handleSubmit no_faults
        (sub_store (handleSubmit no_faults salon ''Ana'' ''color'' ''2024-05-01'' ''10:00''))
        ''Ana'' ''color'' ''2024-05-01'' ''10:00'')),
        available_times (sub_store (handleSubmit no_faults
        (sub_store (handleSubmit no_faults salon ''Ana'' ''color'' ''2024-05-01'' ''10:00''))
        ''Ana'' ''color'' ''2024-05-01'' ''10:00''))) =
       slots_after_booking salon ''color'' ''2024-05-01'' ''10:00''"
    using book_twice_succeeds_twice [where st = salon and name = "''Ana''"
        and service = "''color''" and date = "''2024-05-01''" and time = "''10:00''"
        and \<phi> = no_faults and \<psi> = no_faults,
        OF _ _ _ _ calm(1) calm(1) calm(2) calm(2)] store(1)
    by simp
  have b: "(service_availability (sub_store (handleSubmit no_faults
        (sub_store (handleSubmit no_faults salon ''Ana'' ''cut'' ''2024-05-01'' ''09:00''))
        ''Ana'' ''cut'' ''2024-05-01'' ''09:00'')),
        available_times (sub_store (handleSubmit no_faults
        (sub_store (handleSubmit no_faults salon ''Ana'' ''cut'' ''2024-05-01'' ''09:00''))
        ''Ana'' ''cut'' ''2024-05-01'' ''09:00''))) =
       slots_after_booking salon ''cut'' ''2024-05-01'' ''09:00''"
    using book_twice_succeeds_twice [where st = salon and name = "''Ana''"
        and service = "''cut''" and date = "''2024-05-01''" and time = "''09:00''"
        and \<phi> = no_faults and \<psi> = no_faults,
        OF _ _ _ _ calm(1) calm(1) calm(2) calm(2)]
    by simp
  from a b calm store(2) show ?thesis unfolding color cut by simp
qed

subsection \<open>Removing a service-specific time\<close>

lemma handleRemoveTime_answers:
  "fst (handleRemoveTime no_faults True st selectedDate timeId timeValue) =
     (let st1 = st\<lparr>service_availability :=
                    filter (\<lambda>r. sa_id r \<noteq> timeId) (service_availability st)\<rparr> in
      case single (filter (\<lambda>d. ad_date d = selectedDate) (available_dates st)) of
        None \<Rightarrow> st1
      | Some dateData \<Rightarrow>
          (case single (filter (\<lambda>g. at_date_id g = ad_id dateData \<and> at_time g = timeValue)
                          (available_times st)) of
             Some existingGeneral \<Rightarrow> st1
           | None \<Rightarrow>
               st1\<lparr>available_times :=
                     available_times st @ [general_row st (ad_id dateData) timeValue]\<rparr>))"
  by (simp add: handleRemoveTime_def no_faults_def maybeSingle_def general_row_def Let_def
      split: option.splits)

lemma single_Nil: "single [] = None"
  by (simp add: single_def)

lemma single_one: "single [x] = Some x"
  by (simp add: single_def)

lemma length_le1_cases:
  assumes "length xs \<le> 1"
  obtains "xs = []" | x where "xs = [x]"
  using assms by (cases xs rule: list.exhaust; cases "tl xs") auto

lemma handleRemoveTime_keeps_dates:
  "available_dates (fst (handleRemoveTime \<phi> confirmed st selectedDate timeId timeValue)) =
     available_dates st"
  by (simp add: handleRemoveTime_def maybeSingle_def Let_def split: fault.splits option.splits)

lemma count_in_general_tier:
  "length (filter (\<lambda>t. ts_time t = T) (general_tier s k)) =
   length (filter (\<lambda>g. (at_date_id g = k \<and> at_time g = T) \<and> at_is_available g
                       \<and> T \<notin> set (map sa_time (filter (\<lambda>r. sa_date_id r = k)
                                                  (service_availability s))))
             (available_times s))"
proof -
  have "length (filter (\<lambda>t. ts_time t = T) (general_tier s k)) =
        length (filter (\<lambda>g. at_time g = T)
          (filter (\<lambda>g. at_date_id g = k \<and> at_is_available g
                      \<and> at_time g \<notin> set (map sa_time (filter (\<lambda>r. sa_date_id r = k)
                                                    (service_availability s))))
             (available_times s)))"
    by (simp add: general_tier_def filter_map o_def filter_sort)
  also have "\<dots> = length (filter (\<lambda>g. (at_date_id g = k \<and> at_time g = T) \<and> at_is_available g
                       \<and> T \<notin> set (map sa_time (filter (\<lambda>r. sa_date_id r = k)
                                                  (service_availability s))))
             (available_times s))"
    unfolding filter_filter by (rule arg_cong [where f = length], rule filter_cong) auto
  finally show ?thesis .
qed

lemma listed_count:
  assumes "filter (\<lambda>g. at_date_id g = k \<and> at_time g = T) (available_times s) = [g1]"
  shows "length (filter (\<lambda>t. ts_time t = T) (general_tier s k)) =
           (if at_is_available g1
               \<and> T \<notin> set (map sa_time (filter (\<lambda>r. sa_date_id r = k) (service_availability s)))
            then 1 else 0)"
proof -
  let ?S = "set (map sa_time (filter (\<lambda>r. sa_date_id r = k) (service_availability s)))"
  have "filter (\<lambda>g. (at_date_id g = k \<and> at_time g = T) \<and> at_is_available g \<and> T \<notin> ?S)
          (available_times s) =
        filter (\<lambda>g. at_is_available g \<and> T \<notin> ?S)
          (filter (\<lambda>g. at_date_id g = k \<and> at_time g = T) (available_times s))"
    unfolding filter_filter by (rule filter_cong) auto
  then show ?thesis unfolding count_in_general_tier assms by simp
qed

lemma general_tier_cong:
  "available_times s = available_times s' \<Longrightarrow>
   service_availability s = service_availability s' \<Longrightarrow>
   general_tier s k = general_tier s' k"
  by (simp add: general_tier_def)

lemma other_rows_at_time:
  "(T \<notin> set (map sa_time (filter (\<lambda>r. sa_date_id r = k)
                              (filter (\<lambda>r. sa_id r \<noteq> i) rows)))) =
   (\<forall>r \<in> set rows. sa_id r \<noteq> i \<and> sa_date_id r = k \<longrightarrow> sa_time r \<noteq> T)"
  by auto

lemma rows_after_release:
  fixes st :: store and slot :: service_slot and selectedDate :: string
  defines "once \<equiv>
    fst (handleRemoveTime no_faults True st selectedDate (sa_id slot) (sa_time slot))"
  defines "twice \<equiv>
    fst (handleRemoveTime no_faults True once selectedDate (sa_id slot) (sa_time slot))"
  assumes day: "single (filter (\<lambda>d. ad_date d = selectedDate) (available_dates st)) =
                  Some dateRecord"
    and slot: "slot \<in> set (service_availability st)" "sa_date_id slot = ad_id dateRecord"
    and unique: "length (filter (\<lambda>g. at_date_id g = ad_id dateRecord \<and> at_time g = sa_time slot)
                           (available_times st)) \<le> 1"
  shows "service_availability once =
           filter (\<lambda>r. sa_id r \<noteq> sa_id slot) (service_availability st)
     \<and> slot \<notin> set (service_availability once)
     \<and> (if filter (\<lambda>g. at_date_id g = ad_id dateRecord \<and> at_time g = sa_time slot)
              (available_times st) = []
         then available_times once =
                available_times st @ [general_row st (ad_id dateRecord) (sa_time slot)]
         else available_times once = available_times st)
     \<and> length (filter (\<lambda>g. at_date_id g = ad_id dateRecord \<and> at_time g = sa_time slot)
                 (available_times once)) = 1
     \<and> available_times twice = available_times once
     \<and> service_availability twice = service_availability once
     \<and> length (filter (\<lambda>g. at_date_id g = ad_id dateRecord \<and> at_time g = sa_time slot)
                 (available_times twice)) = 1"
proof -
  let ?P = "\<lambda>g. at_date_id g = ad_id dateRecord \<and> at_time g = sa_time slot"
  let ?st1 = "st\<lparr>service_availability :=
                   filter (\<lambda>r. sa_id r \<noteq> sa_id slot) (service_availability st)\<rparr>"
  note first = handleRemoveTime_answers [of st selectedDate "sa_id slot" "sa_time slot",
      folded once_def]
  note second = handleRemoveTime_answers [of once selectedDate "sa_id slot" "sa_time slot",
      folded twice_def]
  from unique show ?thesis
  proof (cases rule: length_le1_cases)
    case 1
    with first day have o: "once = ?st1\<lparr>available_times :=
        available_times st @ [general_row st (ad_id dateRecord) (sa_time slot)]\<rparr>"
      by (simp add: single_Nil)
    have after: "filter ?P (available_times once) =
                   [general_row st (ad_id dateRecord) (sa_time slot)]"
      unfolding o using 1 by (simp add: general_row_def)
    have dates: "available_dates once = available_dates st" unfolding o by simp
    from second have "twice = once\<lparr>service_availability :=
        filter (\<lambda>r. sa_id r \<noteq> sa_id slot) (service_availability once)\<rparr>"
      unfolding dates day by (simp add: after single_one)
    then have t: "available_times twice = available_times once"
      "service_availability twice = service_availability once"
      unfolding o by simp_all
    from o 1 after t show ?thesis by simp
  next
    case (2 g)
    with first day have o: "once = ?st1" by (simp add: single_one)
    have after: "filter ?P (available_times once) = [g]"
      unfolding o using 2 by simp
    have dates: "available_dates once = available_dates st" unfolding o by simp
    from second have "twice = once\<lparr>service_availability :=
        filter (\<lambda>r. sa_id r \<noteq> sa_id slot) (service_availability once)\<rparr>"
      unfolding dates day by (simp add: after single_one)
    then have t: "available_times twice = available_times once"
      "service_availability twice = service_availability once"
      unfolding o by simp_all
    from o 2 after t show ?thesis by simp
  qed
qed

text \<open>
  C4, as the claim states it, fails. After the release the general tier need not offer
  the released time at all: another service may still own the time on that date, or the
  general row that was left untouched may be flagged unavailable; in both stores a
  service without configuration is offered nothing. And when the store rejects the
  lookup of the general row, a row is appended although one exists, and the date has two
  general rows at the time.
\<close>

theorem released_time_not_listed:
  "available_times (fst (handleRemoveTime no_faults True shared_time_day ''2024-05-01'' 1 ''09:00'')) =
     [\<lparr>at_id = 1, at_date_id = 1, at_time = ''09:00'', at_is_available = True\<rparr>]
   \<and> fetchServiceSpecificTimes no_faults
        (fst (handleRemoveTime no_faults True shared_time_day ''2024-05-01'' 1 ''09:00''))
        ''2024-05-01'' ''wax'' = []
   \<and> available_times (fst (handleRemoveTime no_faults True taken_day ''2024-05-01'' 1 ''09:00'')) =
       [\<lparr>at_id = 1, at_date_id = 1, at_time = ''09:00'', at_is_available = False\<rparr>]
   \<and> fetchServiceSpecificTimes no_faults
        (fst (handleRemoveTime no_faults True taken_day ''2024-05-01'' 1 ''09:00''))
        ''2024-05-01'' ''wax'' = []
   \<and> filter (\<lambda>g. at_date_id g = 1 \<and> at_time g = ''09:00'')
        (available_times (fst (handleRemoveTime (rejects_at 2) True salon ''2024-05-01'' 1 ''09:00''))) =
       [\<lparr>at_id = 2, at_date_id = 1, at_time = ''09:00'', at_is_available = True\<rparr>,
        \<lparr>at_id = 4, at_date_id = 1, at_time = ''09:00'', at_is_available = True\<rparr>]"
proof -
  have a: "fst (handleRemoveTime no_faults True shared_time_day ''2024-05-01'' 1 ''09:00'') =
      \<lparr>available_dates = [\<lparr>ad_id = 1, ad_date = ''2024-05-01''\<rparr>],
       available_times =
         [\<lparr>at_id = 1, at_date_id = 1, at_time = ''09:00'', at_is_available = True\<rparr>],
       service_availability =
         [\<lparr>sa_id = 2, sa_service_id = ''color'', sa_date_id = 1, sa_time = ''09:00'',
           sa_is_available = True\<rparr>],
       appointments = []\<rparr>"
    by (simp add: handleRemoveTime_def no_faults_def maybeSingle_def single_def
        shared_time_day_def new_id_def)
  have b: "fst (handleRemoveTime no_faults True taken_day ''2024-05-01'' 1 ''09:00'') =
      \<lparr>available_dates = [\<lparr>ad_id = 1, ad_date = ''2024-05-01''\<rparr>],
       available_times =
         [\<lparr>at_id = 1, at_date_id = 1, at_time = ''09:00'', at_is_available = False\<rparr>],
       service_availability = [], appointments = []\<rparr>"
    by (simp add: handleRemoveTime_def no_faults_def maybeSingle_def single_def taken_day_def)
  have c: "available_times
        (fst (handleRemoveTime (rejects_at 2) True salon ''2024-05-01'' 1 ''09:00'')) =
      available_times salon @
        [\<lparr>at_id = 4, at_date_id = 1, at_time = ''09:00'', at_is_available = True\<rparr>]"
    by (simp add: handleRemoveTime_def rejects_at_def maybeSingle_def single_def salon_def
        new_id_def)
  show ?thesis
    unfolding a b c
    by (simp add: fetchServiceSpecificTimes_def no_faults_def maybeSingle_def single_def
        select_rows_def general_times_def all_service_times_def salon_def)
qed

text \<open>
  C4, amended. The operator confirms and the store answers; the selected date has a date
  row, the slot is a service-specific row of that date, and the date has at most one
  general row at the slot's time. Then \<open>handleRemoveTime\<close> deletes the slot's row; it
  appends a general row for the date and time, flagged available, when there was none,
  and leaves the general rows as they were when there was one. Afterwards the date has
  exactly one general row at that time, and removing the same slot once more changes
  neither table. For a service without configuration, \<open>fetchServiceSpecificTimes\<close> then
  lists the released time once when the general row that existed before, if any, is
  flagged available and no other service-specific row of the date has the time, and not
  at all otherwise; the same after the second removal.
\<close>

theorem release_restores_general_slot_once:
  fixes st :: store and slot :: service_slot and selectedDate other :: string
    and dateRecord :: available_date
  defines "once \<equiv>
    fst (handleRemoveTime no_faults True st selectedDate (sa_id slot) (sa_time slot))"
  defines "twice \<equiv>
    fst (handleRemoveTime no_faults True once selectedDate (sa_id slot) (sa_time slot))"
  defines "listed \<equiv>
    (\<forall>g \<in> set (filter (\<lambda>g. at_date_id g = ad_id dateRecord \<and> at_time g = sa_time slot)
                   (available_times st)). at_is_available g)
    \<and> (\<forall>r \<in> set (service_availability st).
          sa_id r \<noteq> sa_id slot \<and> sa_date_id r = ad_id dateRecord \<longrightarrow> sa_time r \<noteq> sa_time slot)"
  assumes day: "single (filter (\<lambda>d. ad_date d = selectedDate) (available_dates st)) =
                  Some dateRecord"
    and slot: "slot \<in> set (service_availability st)" "sa_date_id slot = ad_id dateRecord"
    and unique: "length (filter (\<lambda>g. at_date_id g = ad_id dateRecord \<and> at_time g = sa_time slot)
                           (available_times st)) \<le> 1"
    and other: "filter (\<lambda>r. sa_service_id r = other) (service_availability st) = []"
  shows "service_availability once =
           filter (\<lambda>r. sa_id r \<noteq> sa_id slot) (service_availability st)
     \<and> slot \<notin> set (service_availability once)
     \<and> (if filter (\<lambda>g. at_date_id g = ad_id dateRecord \<and> at_time g = sa_time slot)
              (available_times st) = []
         then available_times once =
                available_times st @ [general_row st (ad_id dateRecord) (sa_time slot)]
         else available_times once = available_times st)
     \<and> length (filter (\<lambda>g. at_date_id g = ad_id dateRecord \<and> at_time g = sa_time slot)
                 (available_times once)) = 1
     \<and> available_times twice = available_times once
     \<and> service_availability twice = service_availability once
     \<and> length (filter (\<lambda>g. at_date_id g = ad_id dateRecord \<and> at_time g = sa_time slot)
                 (available_times twice)) = 1
     \<and> length (filter (\<lambda>t. ts_time t = sa_time slot)
                 (fetchServiceSpecificTimes no_faults once selectedDate other)) =
         (if listed then 1 else 0)
     \<and> length (filter (\<lambda>t. ts_time t = sa_time slot)
                 (fetchServiceSpecificTimes no_faults twice selectedDate other)) =
         (if listed then 1 else 0)"
proof -
  let ?P = "\<lambda>g. at_date_id g = ad_id dateRecord \<and> at_time g = sa_time slot"
  note rows = rows_after_release [OF day slot unique, folded once_def, folded twice_def]
  from rows have srv: "service_availability once =
      filter (\<lambda>r. sa_id r \<noteq> sa_id slot) (service_availability st)"
    and same: "available_times twice = available_times once"
      "service_availability twice = service_availability once"
    by simp_all
  have dates: "available_dates once = available_dates st" "available_dates twice = available_dates st"
    unfolding twice_def once_def by (simp_all only: handleRemoveTime_keeps_dates)
  from other have none: "filter (\<lambda>r. sa_service_id r = other) (service_availability once) = []"
    unfolding srv by (simp add: filter_empty_conv)
  then have none2: "filter (\<lambda>r. sa_service_id r = other) (service_availability twice) = []"
    unfolding same .
  have f1: "fetchServiceSpecificTimes no_faults once selectedDate other =
              general_tier once (ad_id dateRecord)"
    using fetch_general_branch [OF none, of selectedDate] unfolding dates day by simp
  have f2: "fetchServiceSpecificTimes no_faults twice selectedDate other =
              general_tier once (ad_id dateRecord)"
    using fetch_general_branch [OF none2, of selectedDate] general_tier_cong [OF same]
    unfolding dates day by simp
  have count: "length (filter (\<lambda>t. ts_time t = sa_time slot) (general_tier once (ad_id dateRecord))) =
                 (if listed then 1 else 0)"
  using unique
  proof (cases rule: length_le1_cases)
    case 1
    with rows have "available_times once =
        available_times st @ [general_row st (ad_id dateRecord) (sa_time slot)]"
      by simp
    with 1 have one: "filter ?P (available_times once) =
        [general_row st (ad_id dateRecord) (sa_time slot)]"
      by (simp add: general_row_def)
    have "at_is_available (general_row st (ad_id dateRecord) (sa_time slot))"
      by (simp add: general_row_def)
    with 1 show ?thesis
      unfolding listed_count [OF one] srv other_rows_at_time listed_def by simp
  next
    case (2 g)
    with rows have "available_times once = available_times st" by simp
    with 2 have one: "filter ?P (available_times once) = [g]" by simp
    from 2 show ?thesis
      unfolding listed_count [OF one] srv other_rows_at_time listed_def by simp
  qed
  from rows count show ?thesis unfolding f1 f2 by simp
qed

theorem release_restores_general_slot_once_witness:
  "single (filter (\<lambda>d. ad_date d = ''2024-05-01'') (available_dates cut_only_day)) =
     Some \<lparr>ad_id = 1, ad_date = ''2024-05-01''\<rparr>
   \<and> service_availability cut_only_day =
       [\<lparr>sa_id = 1, sa_service_id = ''cut'', sa_date_id = 1, sa_time = ''09:00'',
         sa_is_available = True\<rparr>]
   \<and> available_times cut_only_day = []
   \<and> service_availability
        (fst (handleRemoveTime no_faults True cut_only_day ''2024-05-01'' 1 ''09:00'')) = []
   \<and> available_times (fst (handleRemoveTime no_faults True cut_only_day ''2024-05-01'' 1 ''09:00'')) =
       [\<lparr>at_id = 1, at_date_id = 1, at_time = ''09:00'', at_is_available = True\<rparr>]
   \<and> available_times (fst (handleRemoveTime no_faults True
         (fst (handleRemoveTime no_faults True cut_only_day ''2024-05-01'' 1 ''09:00''))
         ''2024-05-01'' 1 ''09:00'')) =
       [\<lparr>at_id = 1, at_date_id = 1, at_time = ''09:00'', at_is_available = True\<rparr>]
   \<and> length (filter (\<lambda>t. ts_time t = ''09:00'')
        (fetchServiceSpecificTimes no_faults
           (fst (handleRemoveTime no_faults True cut_only_day ''2024-05-01'' 1 ''09:00''))
           ''2024-05-01'' ''wax'')) = 1
   \<and> length (filter (\<lambda>t. ts_time t = ''09:00'')
        (fetchServiceSpecificTimes no_faults
           (fst (handleRemoveTime no_faults True
              (fst (handleRemoveTime no_faults True cut_only_day ''2024-05-01'' 1 ''09:00''))
              ''2024-05-01'' 1 ''09:00''))
           ''2024-05-01'' ''wax'')) = 1
   \<and> length (filter (\<lambda>g. at_date_id g = 1 \<and> at_time g = ''09:00'') (available_times salon)) = 1
   \<and> available_times (fst (handleRemoveTime no_faults True salon ''2024-05-01'' 1 ''09:00'')) =
       available_times salon
   \<and> length (filter (\<lambda>t. ts_time t = ''09:00'')
        (fetchServiceSpecificTimes no_faults
           (fst (handleRemoveTime no_faults True salon ''2024-05-01'' 1 ''09:00''))
           ''2024-05-01'' ''wax'')) = 1
   \<and> length (filter (\<lambda>t. ts_time t = ''09:00'')
        (fetchServiceSpecificTimes no_faults
           (fst (handleRemoveTime no_faults True taken_day ''2024-05-01'' 1 ''09:00''))
           ''2024-05-01'' ''wax'')) = 0"
proof -
  let ?slot = "\<lparr>sa_id = 1, sa_service_id = ''cut'', sa_date_id = 1, sa_time = ''09:00'',
                sa_is_available = True\<rparr>"
  let ?day = "\<lparr>ad_id = 1, ad_date = ''2024-05-01''\<rparr>"
  have day: "single (filter (\<lambda>d. ad_date d = ''2024-05-01'') (available_dates cut_only_day)) =
      Some ?day"
    "single (filter (\<lambda>d. ad_date d = ''2024-05-01'') (available_dates salon)) = Some ?day"
    "single (filter (\<lambda>d. ad_date d = ''2024-05-01'') (available_dates taken_day)) = Some ?day"
    by (simp_all add: salon_def cut_only_day_def taken_day_def single_one)
  have rows: "service_availability cut_only_day = [?slot]" "service_availability salon = [?slot]"
    "service_availability taken_day = [?slot]"
    by (simp_all add: salon_def cut_only_day_def taken_day_def)
  have gen: "available_times cut_only_day = []"
    "filter (\<lambda>g. at_date_id g = Suc 0 \<and> at_time g = ''09:00'') (available_times salon) =
       [\<lparr>at_id = 2, at_date_id = 1, at_time = ''09:00'', at_is_available = True\<rparr>]"
    "filter (\<lambda>g. at_date_id g = Suc 0 \<and> at_time g = ''09:00'') (available_times taken_day) =
       [\<lparr>at_id = 1, at_date_id = 1, at_time = ''09:00'', at_is_available = False\<rparr>]"
    by (simp_all add: salon_def cut_only_day_def taken_day_def)
  have row: "general_row cut_only_day (Suc 0) ''09:00'' =
               \<lparr>at_id = 1, at_date_id = 1, at_time = ''09:00'', at_is_available = True\<rparr>"
    by (simp add: general_row_def cut_only_day_def new_id_def)
  have a: "service_availability
        (fst (handleRemoveTime no_faults True cut_only_day ''2024-05-01'' 1 ''09:00'')) = []
     \<and> available_times (fst (handleRemoveTime no_faults True cut_only_day ''2024-05-01'' 1 ''09:00'')) =
       [\<lparr>at_id = 1, at_date_id = 1, at_time = ''09:00'', at_is_available = True\<rparr>]
     \<and> available_times (fst (handleRemoveTime no_faults True
         (fst (handleRemoveTime no_faults True cut_only_day ''2024-05-01'' 1 ''09:00''))
         ''2024-05-01'' 1 ''09:00'')) =
       [\<lparr>at_id = 1, at_date_id = 1, at_time = ''09:00'', at_is_available = True\<rparr>]
     \<and> length (filter (\<lambda>t. ts_time t = ''09:00'')
        (fetchServiceSpecificTimes no_faults
           (fst (handleRemoveTime no_faults True cut_only_day ''2024-05-01'' 1 ''09:00''))
           ''2024-05-01'' ''wax'')) = 1
     \<and> length (filter (\<lambda>t. ts_time t = ''09:00'')
        (fetchServiceSpecificTimes no_faults
           (fst (handleRemoveTime no_faults True
              (fst (handleRemoveTime no_faults True cut_only_day ''2024-05-01'' 1 ''09:00''))
              ''2024-05-01'' 1 ''09:00''))
           ''2024-05-01'' ''wax'')) = 1"
    using release_restores_general_slot_once [where st = cut_only_day and slot = ?slot
        and selectedDate = "''2024-05-01''" and dateRecord = ?day and other = "''wax''"]
      day(1) rows(1) gen(1)
    by (simp add: row)
  have b: "available_times (fst (handleRemoveTime no_faults True salon ''2024-05-01'' 1 ''09:00'')) =
       available_times salon
     \<and> length (filter (\<lambda>t. ts_time t = ''09:00'')
        (fetchServiceSpecificTimes no_faults
           (fst (handleRemoveTime no_faults True salon ''2024-05-01'' 1 ''09:00''))
           ''2024-05-01'' ''wax'')) = 1"
    using release_restores_general_slot_once [where st = salon and slot = ?slot
        and selectedDate = "''2024-05-01''" and dateRecord = ?day and other = "''wax''"]
      day(2) rows(2) gen(2)
    by simp
  have c: "length (filter (\<lambda>t. ts_time t = ''09:00'')
        (fetchServiceSpecificTimes no_faults
           (fst (handleRemoveTime no_faults True taken_day ''2024-05-01'' 1 ''09:00''))
           ''2024-05-01'' ''wax'')) = 0"
    using release_restores_general_slot_once [where st = taken_day and slot = ?slot
        and selectedDate = "''2024-05-01''" and dateRecord = ?day and other = "''wax''"]
      day(3) rows(3) gen(3)
    by simp
  from day(1) rows(1) gen(1,2) a b c show ?thesis by simp
qed

text \<open>
  C5, as the claim states it, fails: on a day with no general row, adding a time of its
  own for a service displaces nothing, and removing that time again creates a general
  row that was never there.
\<close>

theorem release_creates_slot_never_displaced:
  "available_times empty_day = []
   \<and> handleAddTime no_faults empty_day ''cut'' ''2024-05-01'' ''09:00'' =
       (cut_only_day, SuccessAdded)
   \<and> available_times cut_only_day = []
   \<and> available_times (fst (handleRemoveTime no_faults True cut_only_day ''2024-05-01'' 1 ''09:00'')) =
       [\<lparr>at_id = 1, at_date_id = 1, at_time = ''09:00'', at_is_available = True\<rparr>]"
  by (simp add: empty_day_def cut_only_day_def handleAddTime_def handleRemoveTime_def
      removeFromGeneralAvailability_def no_faults_def maybeSingle_def new_id_def
      single_Nil single_one)

text \<open>
  C5, amended. \<open>handleRemoveTime\<close> leaves the date rows and the appointments alone.
  The service-specific table loses exactly the rows with the given id when the operator
  confirms and the store accepts the deletion, and is unchanged otherwise; no flag of
  any row is changed. The general rows stay as they are; one row for the date and time,
  flagged available, is appended after them exactly when the operator confirmed, no
  call before the insert threw, the date lookup and the insert were answered, the date
  has a date row, and the lookup of the general row was rejected or found not exactly
  one row. With the operator confirming and the store answering, the service-specific
  row is deleted, a general row is added when the date has none at the time, whether or
  not one was displaced earlier, and an existing one is left as it is.
\<close>

theorem remove_time_frame:
  fixes st :: store
  defines "after \<equiv> \<lambda>\<phi> confirmed selectedDate timeId timeValue.
    fst (handleRemoveTime \<phi> confirmed st selectedDate timeId timeValue)"
  shows "available_dates (after \<phi> confirmed selectedDate timeId timeValue) = available_dates st
     \<and> appointments (after \<phi> confirmed selectedDate timeId timeValue) = appointments st
     \<and> service_availability (after \<phi> confirmed selectedDate timeId timeValue) =
         (if confirmed \<and> \<phi> 0 = Answers
          then filter (\<lambda>r. sa_id r \<noteq> timeId) (service_availability st)
          else service_availability st)
     \<and> available_times (after \<phi> confirmed selectedDate timeId timeValue) =
         (case single (filter (\<lambda>d. ad_date d = selectedDate) (available_dates st)) of
            None \<Rightarrow> available_times st
          | Some dateRecord \<Rightarrow>
              if confirmed \<and> \<phi> 0 \<noteq> Throws \<and> \<phi> 1 = Answers \<and> \<phi> 3 = Answers
                 \<and> (\<phi> 2 = Rejects
                     \<or> \<phi> 2 = Answers
                       \<and> single (filter (\<lambda>g. at_date_id g = ad_id dateRecord
                                            \<and> at_time g = timeValue) (available_times st)) = None)
              then available_times st @ [general_row st (ad_id dateRecord) timeValue]
              else available_times st)
     \<and> service_availability (after no_faults True selectedDate timeId timeValue) =
         filter (\<lambda>r. sa_id r \<noteq> timeId) (service_availability st)
     \<and> (single (filter (\<lambda>d. ad_date d = selectedDate) (available_dates st)) = Some dateRecord
         \<and> filter (\<lambda>g. at_date_id g = ad_id dateRecord \<and> at_time g = timeValue)
              (available_times st) = [] \<longrightarrow>
         available_times (after no_faults True selectedDate timeId timeValue) =
           available_times st @ [general_row st (ad_id dateRecord) timeValue])
     \<and> (single (filter (\<lambda>d. ad_date d = selectedDate) (available_dates st)) = Some dateRecord
         \<and> filter (\<lambda>g. at_date_id g = ad_id dateRecord \<and> at_time g = timeValue)
              (available_times st) = [existing] \<longrightarrow>
         available_times (after no_faults True selectedDate timeId timeValue) = available_times st)"
proof (intro conjI impI)
  show "available_dates (after \<phi> confirmed selectedDate timeId timeValue) = available_dates st"
    unfolding after_def by (rule handleRemoveTime_keeps_dates)
next
  show "appointments (after \<phi> confirmed selectedDate timeId timeValue) = appointments st"
    by (simp add: after_def handleRemoveTime_def maybeSingle_def Let_def
        split: fault.splits option.splits)
next
  show "service_availability (after \<phi> confirmed selectedDate timeId timeValue) =
         (if confirmed \<and> \<phi> 0 = Answers
          then filter (\<lambda>r. sa_id r \<noteq> timeId) (service_availability st)
          else service_availability st)"
    by (simp add: after_def handleRemoveTime_def maybeSingle_def Let_def
        split: fault.splits option.splits)
next
  show "available_times (after \<phi> confirmed selectedDate timeId timeValue) =
         (case single (filter (\<lambda>d. ad_date d = selectedDate) (available_dates st)) of
            None \<Rightarrow> available_times st
          | Some dateRecord \<Rightarrow>
              if confirmed \<and> \<phi> 0 \<noteq> Throws \<and> \<phi> 1 = Answers \<and> \<phi> 3 = Answers
                 \<and> (\<phi> 2 = Rejects
                     \<or> \<phi> 2 = Answers
                       \<and> single (filter (\<lambda>g. at_date_id g = ad_id dateRecord
                                            \<and> at_time g = timeValue) (available_times st)) = None)
              then available_times st @ [general_row st (ad_id dateRecord) timeValue]
              else available_times st)"
    by (simp add: after_def handleRemoveTime_def maybeSingle_def Let_def general_row_def
        split: fault.splits option.splits)
next
  show "service_availability (after no_faults True selectedDate timeId timeValue) =
         filter (\<lambda>r. sa_id r \<noteq> timeId) (service_availability st)"
    unfolding after_def handleRemoveTime_answers by (simp add: Let_def split: option.splits)
next
  assume "single (filter (\<lambda>d. ad_date d = selectedDate) (available_dates st)) = Some dateRecord
         \<and> filter (\<lambda>g. at_date_id g = ad_id dateRecord \<and> at_time g = timeValue)
              (available_times st) = []"
  then show "available_times (after no_faults True selectedDate timeId timeValue) =
           available_times st @ [general_row st (ad_id dateRecord) timeValue]"
    unfolding after_def handleRemoveTime_answers by (simp add: single_Nil)
next
  assume "single (filter (\<lambda>d. ad_date d = selectedDate) (available_dates st)) = Some dateRecord
         \<and> filter (\<lambda>g. at_date_id g = ad_id dateRecord \<and> at_time g = timeValue)
              (available_times st) = [existing]"
  then show "available_times (after no_faults True selectedDate timeId timeValue) =
           available_times st"
    unfolding after_def handleRemoveTime_answers by (simp add: single_one)
qed

theorem remove_time_frame_witness:
  "single (filter (\<lambda>d. ad_date d = ''2024-05-01'') (available_dates cut_only_day)) =
     Some \<lparr>ad_id = 1, ad_date = ''2024-05-01''\<rparr>
   \<and> filter (\<lambda>g. at_date_id g = 1 \<and> at_time g = ''09:00'') (available_times cut_only_day) = []
   \<and> available_times (fst (handleRemoveTime no_faults True cut_only_day ''2024-05-01'' 1 ''09:00'')) =
       available_times cut_only_day @
         [\<lparr>at_id = 1, at_date_id = 1, at_time = ''09:00'', at_is_available = True\<rparr>]
   \<and> service_availability
        (fst (handleRemoveTime no_faults True cut_only_day ''2024-05-01'' 1 ''09:00'')) = []
   \<and> single (filter (\<lambda>d. ad_date d = ''2024-05-01'') (available_dates salon)) =
       Some \<lparr>ad_id = 1, ad_date = ''2024-05-01''\<rparr>
   \<and> filter (\<lambda>g. at_date_id g = 1 \<and> at_time g = ''09:00'') (available_times salon) =
       [\<lparr>at_id = 2, at_date_id = 1, at_time = ''09:00'', at_is_available = True\<rparr>]
   \<and> available_times (fst (handleRemoveTime no_faults True salon ''2024-05-01'' 1 ''09:00'')) =
       available_times salon
   \<and> service_availability (fst (handleRemoveTime no_faults True salon ''2024-05-01'' 1 ''09:00'')) =
       []"
proof -
  let ?day = "\<lparr>ad_id = 1, ad_date = ''2024-05-01''\<rparr>"
  have day: "single (filter (\<lambda>d. ad_date d = ''2024-05-01'') (available_dates cut_only_day)) =
      Some ?day"
    "single (filter (\<lambda>d. ad_date d = ''2024-05-01'') (available_dates salon)) = Some ?day"
    and gen: "filter (\<lambda>g. at_date_id g = Suc 0 \<and> at_time g = ''09:00'')
                (available_times cut_only_day) = []"
      "filter (\<lambda>g. at_date_id g = Suc 0 \<and> at_time g = ''09:00'') (available_times salon) =
         [\<lparr>at_id = 2, at_date_id = 1, at_time = ''09:00'', at_is_available = True\<rparr>]"
    and row: "general_row cut_only_day (Suc 0) ''09:00'' =
               \<lparr>at_id = 1, at_date_id = 1, at_time = ''09:00'', at_is_available = True\<rparr>"
    and rows: "filter (\<lambda>r. sa_id r \<noteq> Suc 0) (service_availability cut_only_day) = []"
      "filter (\<lambda>r. sa_id r \<noteq> Suc 0) (service_availability salon) = []"
    by (simp_all add: cut_only_day_def salon_def general_row_def new_id_def single_one)
  have a: "available_times (fst (handleRemoveTime no_faults True cut_only_day ''2024-05-01'' 1 ''09:00'')) =
       available_times cut_only_day @
         [\<lparr>at_id = 1, at_date_id = 1, at_time = ''09:00'', at_is_available = True\<rparr>]
     \<and> service_availability
        (fst (handleRemoveTime no_faults True cut_only_day ''2024-05-01'' 1 ''09:00'')) = []"
    using remove_time_frame [where st = cut_only_day and selectedDate = "''2024-05-01''"
      and timeValue = "''09:00''" and timeId = 1 and dateRecord = ?day
      and \<phi> = no_faults and confirmed = True] day(1) gen(1) row rows(1)
    by (simp add: no_faults_def single_Nil)
  have b: "available_times (fst (handleRemoveTime no_faults True salon ''2024-05-01'' 1 ''09:00'')) =
       available_times salon
     \<and> service_availability (fst (handleRemoveTime no_faults True salon ''2024-05-01'' 1 ''09:00'')) =
       []"
    using remove_time_frame [where st = salon and selectedDate = "''2024-05-01''"
      and timeValue = "''09:00''" and timeId = 1 and dateRecord = ?day
      and \<phi> = no_faults and confirmed = True
      and existing = "\<lparr>at_id = 2, at_date_id = 1, at_time = ''09:00'', at_is_available = True\<rparr>"]
      day(2) gen(2) rows(2)
    by (simp add: no_faults_def single_one)
  from day gen a b show ?thesis by simp
qed

end
